theory Spec2Isabelle
  imports Complex_Main "HOL-Library.Word" "HOL-Library.AList"
begin

section \<open>Conventions of the embedding\<close>

text \<open>
  The library \<^verbatim>\<open>libprocu-galaxy.hpp\<close> computes with C++ \<^verbatim>\<open>float\<close> and \<^verbatim>\<open>double\<close>.
  Both are modelled as \<^typ>\<open>real\<close>: arithmetic is exact, there is no rounding, no
  overflow to infinity and no NaN, and a decimal literal such as \<^verbatim>\<open>0.965f\<close> stands for
  the decimal fraction it spells. \<^verbatim>\<open>pow(x, n)\<close> with an integer literal \<open>n\<close> is
  \<open>x ^ n\<close>; \<^verbatim>\<open>pow(x, y)\<close> with a fractional exponent is \<open>x powr y\<close>, which agrees
  with C++ for \<open>x \<ge> 0\<close>. Integers keep their width: seeds are \<^typ>\<open>64 word\<close>,
  \<^verbatim>\<open>uint\<close> is \<^typ>\<open>32 word\<close>, \<^verbatim>\<open>int\<close> values that stay small are \<^typ>\<open>int\<close>.

  A \<^verbatim>\<open>std::map<std::string, float>\<close> is an association list with distinct keys,
  read with \<open>map_of\<close> and written with \<open>AList.update\<close>; a map keyed by a seed is a
  partial function \<open>64 word \<rightharpoonup> 'a\<close>. Behaviour that C++ leaves undefined (an array
  read out of range, a read of an uninitialised member) is the result \<open>None\<close>.
\<close>

type_synonym float32 = real
type_synonym uint64_t = "64 word"
type_synonym uint = "32 word"
type_synonym byte = "8 word"

subsection \<open>The random generator\<close>

text \<open>
  The generator class \<^verbatim>\<open>pcg32\<close> comes from the header \<^verbatim>\<open>pcg32.h\<close>, which is not among
  the sources. It is a parameter of every function that draws: a state type \<open>'r\<close> and
  the member functions the library calls. \<open>rng_new\<close> is the default constructor
  \<^verbatim>\<open>pcg32()\<close>. \<open>rng_seed s\<close> is both the constructor
  \<^verbatim>\<open>pcg32 rng(s)\<close> and the call \<^verbatim>\<open>rng.seed(s)\<close>: either one sets the whole state from
  the seed. \<open>nextUInt b\<close> is \<^verbatim>\<open>nextUInt(b)\<close>, the bounded integer draw.
\<close>

record 'r pcg32 =
  rng_new :: "'r"
  rng_seed :: "uint64_t \<Rightarrow> 'r"
  nextUInt :: "uint \<Rightarrow> 'r \<Rightarrow> uint \<times> 'r"
  nextFloat :: "'r \<Rightarrow> float32 \<times> 'r"
  nextDouble :: "'r \<Rightarrow> real \<times> 'r"

text \<open>
  What \<^verbatim>\<open>pcg32.h\<close> documents about the draws: a float or double draw lies in \<open>[0, 1)\<close>,
  a bounded integer draw lies in \<open>[0, bound)\<close>.
\<close>

definition pcg32_contract :: "'r pcg32 \<Rightarrow> bool" where
  "pcg32_contract R \<longleftrightarrow>
     (\<forall>r. 0 \<le> fst (nextFloat R r) \<and> fst (nextFloat R r) < 1) \<and>
     (\<forall>r. 0 \<le> fst (nextDouble R r) \<and> fst (nextDouble R r) < 1) \<and>
     (\<forall>b r. b \<noteq> 0 \<longrightarrow> fst (nextUInt R b r) < b)"

text \<open>
  A replayed stream, to run the functions on chosen draws: the state is the list of raw
  outputs still to come, and \<open>book\<close> gives the outputs that follow each seed. A raw
  output \<open>n\<close> reads as the float \<open>(n mod 2^23) / 2^23\<close> and as the bounded integer
  \<open>n mod bound\<close>; an exhausted list keeps giving 0.
\<close>

definition replay :: "(uint64_t \<Rightarrow> nat list) \<Rightarrow> (nat list) pcg32" where
  "replay book =
     \<lparr> rng_new = [],
       rng_seed = book,
       nextUInt = (\<lambda>bound s. case s of
           [] \<Rightarrow> (0, [])
         | n # rest \<Rightarrow> (if bound = 0 then 0 else word_of_nat (n mod unat bound), rest)),
       nextFloat = (\<lambda>s. case s of
           [] \<Rightarrow> (0, [])
         | n # rest \<Rightarrow> (real (n mod 2 ^ 23) / 2 ^ 23, rest)),
       nextDouble = (\<lambda>s. case s of
           [] \<Rightarrow> (0, [])
         | n # rest \<Rightarrow> (real (n mod 2 ^ 23) / 2 ^ 23, rest)) \<rparr>"

subsection \<open>Constants of the cosmic universe\<close>

definition G :: float32 where "G = 6.67384 / 10 ^ 11"
definition gEarth :: float32 where "gEarth = 9.81"
definition au2km :: float32 where "au2km = 1.49597871 * 10 ^ 8"
definition m2au :: float32 where "m2au = 6.68458712 / 10 ^ 12"
definition Rsol :: float32 where "Rsol = 696342"
definition Rearth :: float32 where "Rearth = 6371"
definition Mearth :: float32 where "Mearth = 5.972 * 10 ^ 24"
definition Lsol :: float32 where "Lsol = 3.84 * 10 ^ 26"
definition Lsigma :: float32 where "Lsigma = 5.67 / 10 ^ 8"
definition yearEarth :: float32 where "yearEarth = 31558149.5"

subsection \<open>MathUtil\<close>

definition normalDistribution :: "float32 \<Rightarrow> float32 \<Rightarrow> float32 \<Rightarrow> float32" where
  "normalDistribution x mu sigma =
     (1 / (sigma * sqrt (2 * pi))) * exp (- ((x - mu) ^ 2) / (2 * sigma ^ 2))"

definition inverseExpDistribution :: "float32 \<Rightarrow> float32 \<Rightarrow> float32" where
  "inverseExpDistribution x skew = exp (- (x powr skew))"

subsection \<open>Random index from a cumulative distribution\<close>

text \<open>
  \<^verbatim>\<open>getRndCdfIdx\<close> walks the list; at each element it sets \<open>idx\<close> to the element's
  position and stops when \<open>rn \<le> ub\<close>. The loop carries the position of the iterator
  and the current \<open>idx\<close>.
\<close>

fun getRndCdfIdx_loop :: "float32 \<Rightarrow> float32 list \<Rightarrow> int \<Rightarrow> int \<Rightarrow> int" where
  "getRndCdfIdx_loop rn [] pos idx = idx"
| "getRndCdfIdx_loop rn (ub # rest) pos idx =
     (if rn \<le> ub then pos else getRndCdfIdx_loop rn rest (pos + 1) pos)"

definition getRndCdfIdx :: "float32 \<Rightarrow> float32 list \<Rightarrow> int" where
  "getRndCdfIdx rn cdf = getRndCdfIdx_loop rn cdf 0 0"

section \<open>Model of the atmosphere\<close>

definition componentOrder :: "string list" where
  "componentOrder =
     [''CO2'', ''H2'', ''N2'', ''O2'', ''He'', ''Ar'', ''CH4'', ''Ne'', ''Kr'', ''Xe'']"

definition elementProb :: "(string \<times> float32) list" where
  "elementProb =
     [(''CO2'', 0.965), (''H2'', 0.963), (''N2'', 0.780), (''O2'', 0.210), (''He'', 0.102),
      (''Ar'', 0.016), (''CH4'', 0.015), (''Ne'', 0.0001), (''Kr'', 0.0001), (''Xe'', 0.0001)]"

definition ppMaxGas :: "(string \<times> float32) list" where
  "ppMaxGas =
     [(''He'', 2934.0), (''Ne'', 66.0), (''H2'', 16.5), (''N2'', 5.94), (''O2'', 1.6),
      (''Ar'', 1.12), (''Kr'', 0.12), (''CO2'', 0.015), (''Xe'', 0.009), (''CH4'', 0.001)]"

text \<open>
  \<^verbatim>\<open>m[k]\<close> read on a \<^verbatim>\<open>std::map\<close>: the stored value, or the value-initialised \<open>0\<close>
  when the key is absent. \<^verbatim>\<open>m.count(k)\<close> is 1 or 0.
\<close>

definition map_index :: "(string \<times> float32) list \<Rightarrow> string \<Rightarrow> float32" where
  "map_index m k = (case map_of m k of None \<Rightarrow> 0 | Some v \<Rightarrow> v)"

definition map_count :: "(string \<times> float32) list \<Rightarrow> string \<Rightarrow> nat" where
  "map_count m k = (case map_of m k of None \<Rightarrow> 0 | Some v \<Rightarrow> 1)"

record UniverseAtmosphere =
  a_radius :: float32
  a_pressure :: float32
  a_composition :: "(string \<times> float32) list"

text \<open>The constructor \<^verbatim>\<open>UniverseAtmosphere()\<close> with the member initialisers.\<close>

definition UniverseAtmosphere_new :: UniverseAtmosphere where
  "UniverseAtmosphere_new = \<lparr> a_radius = 0, a_pressure = 0, a_composition = [] \<rparr>"

definition exists_atm :: "UniverseAtmosphere \<Rightarrow> bool" where
  "exists_atm atm \<longleftrightarrow> a_radius atm > 0"

text \<open>
  \<^verbatim>\<open>atmosphereHabitability\<close>: the loop visits every entry of the map; the three checks
  are all inside the loop body. The first argument of the loop is the whole map (for
  \<^verbatim>\<open>composition.count("O2")\<close>), the second the entries still to visit.
\<close>

fun atmosphereHabitability_loop ::
  "(string \<times> float32) list \<Rightarrow> (string \<times> float32) list \<Rightarrow> float32 \<Rightarrow> float32 \<Rightarrow> float32" where
  "atmosphereHabitability_loop composition [] pressure probabAtmo = probabAtmo"
| "atmosphereHabitability_loop composition ((gas, val) # rest) pressure probabAtmo =
     (let ppGas = val * pressure;
          p1 = (if ppGas > map_index ppMaxGas gas then 0 else probabAtmo);
          p2 = (if gas = ''O2'' \<and> ppGas < 0.16 then 0 else p1);
          p3 = (if map_count composition ''O2'' = 0 then 0 else p2)
      in atmosphereHabitability_loop composition rest pressure p3)"

definition atmosphereHabitability :: "(string \<times> float32) list \<Rightarrow> float32 \<Rightarrow> float32" where
  "atmosphereHabitability composition pressure =
     atmosphereHabitability_loop composition composition pressure 1"

text \<open>
  \<^verbatim>\<open>createComposition\<close>. The generator is passed by value, so the caller's generator
  does not advance; only the map is returned. \<open>part\<close>, \<open>run\<close>, \<open>minCnt\<close> and \<open>maxCnt\<close>
  are the local variables of the source. The loop need not end for an arbitrary
  generator, hence an \<open>option\<close>-valued partial function; an index outside
  \<^verbatim>\<open>componentOrder[10]\<close> is \<open>None\<close> as well.
\<close>

partial_function (option) createComposition_loop ::
  "'r pcg32 \<Rightarrow> float32 \<Rightarrow> int \<Rightarrow> int \<Rightarrow> int \<Rightarrow> (string \<times> float32) list \<Rightarrow> 'r
     \<Rightarrow> (string \<times> float32) list option" where
  "createComposition_loop R part run minCnt maxCnt composition rnd =
     (if part < 1 then
        (let minCnt = (if run = 0 then 0 else minCnt);
             maxCnt = (if run = 0 then 2 else maxCnt);
             minCnt = (if run = 1 then 2 else minCnt);
             maxCnt = (if run = 1 then 4 else maxCnt);
             minCnt = (if run > 1 then 4 else minCnt);
             maxCnt = (if run > 1 then int (length elementProb) - 1 else maxCnt);
             draw = nextUInt R (word_of_int (maxCnt - minCnt)) rnd;
             which = minCnt + sint (fst draw)
         in if which < 0 \<or> 10 \<le> which then None
            else
              (let comp = componentOrder ! nat which;
                   maxPart = map_index elementProb comp;
                   fdraw = nextFloat R (snd draw);
                   variationPart = maxPart * 0.6 + fst fdraw * maxPart * 0.4;
                   partToAdd = min variationPart (1 - part);
                   part' = part + partToAdd;
                   composition' =
                     (if map_count composition comp \<noteq> 0
                      then AList.update comp partToAdd composition
                      else AList.update comp (map_index composition comp + partToAdd) composition)
               in createComposition_loop R part' (run + 1) minCnt maxCnt composition' (snd fdraw)))
      else Some composition)"

definition createComposition ::
  "'r pcg32 \<Rightarrow> (string \<times> float32) list \<Rightarrow> 'r \<Rightarrow> (string \<times> float32) list option" where
  "createComposition R composition rnd =
     createComposition_loop R 0 0 0 (int (length elementProb) - 1) composition rnd"

section \<open>Model of the planet\<close>

text \<open>
  The periodic table of planets: 18 types, three temperature zones of six mass classes.
\<close>

definition Mearth_min :: "float32 list" where
  "Mearth_min =
     [0.0, 0.1, 0.5, 2.0, 10.0, 50.0,
      0.0, 0.1, 0.5, 2.0, 10.0, 50.0,
      0.0, 0.1, 0.5, 2.0, 10.0, 50.0]"

definition Mearth_max :: "float32 list" where
  "Mearth_max =
     [0.1, 0.5, 2.0, 10.0, 50.0, 1000,
      0.1, 0.5, 2.0, 10.0, 50.0, 1000,
      0.1, 0.5, 2.0, 10.0, 50.0, 1000]"

definition Rearth_min :: "float32 list" where
  "Rearth_min =
     [0.03, 0.4, 0.8, 1.25, 2.6, 6.0,
      0.03, 0.4, 0.8, 1.25, 2.6, 6.0,
      0.03, 0.4, 0.8, 1.25, 2.6, 6.0]"

definition Rearth_max :: "float32 list" where
  "Rearth_max =
     [0.4, 0.8, 1.25, 2.6, 6.0, 1000,
      0.4, 0.8, 1.25, 2.6, 6.0, 1000,
      0.4, 0.8, 1.25, 2.6, 6.0, 1000]"

definition atmosphereProbabilityMax :: "float32 list" where
  "atmosphereProbabilityMax =
     [0.0, 0.001, 0.001, 0.001, 1.0, 1.0,
      0.0, 0.02, 0.05, 0.01, 1.0, 1.0,
      0.0, 0.0, 0.0, 0.0, 1.0, 1.0]"

definition atmospherePressureMin :: "float32 list" where
  "atmospherePressureMin =
     [0.0, 0.1, 0.5, 0.5, 10.0, 100,
      0.0, 0.1, 0.5, 0.5, 10.0, 100,
      0.0, 0.1, 0.5, 0.5, 10.0, 100]"

definition atmospherePressureMax :: "float32 list" where
  "atmospherePressureMax =
     [0.001, 0.5, 2.0, 3.0, 1000, 2000,
      0.001, 0.5, 2.0, 3.0, 1000, 2000,
      0.001, 0.5, 2.0, 3.0, 1000, 2000]"

text \<open>
  \<^verbatim>\<open>struct UniversePlanet\<close>. The members \<^verbatim>\<open>name\<close>, \<^verbatim>\<open>rotation\<close> and \<^verbatim>\<open>baseColor\<close> keep
  their initial value in every function of the library and are left out.
\<close>

record UniversePlanet =
  p_seed :: uint64_t
  p_position :: "real list"
  starDistance :: float32
  isInHz :: bool
  p_mass :: float32
  p_mu :: float32
  p_temperature :: float32
  equatorTemperature :: float32
  poleTemperature :: float32
  p_typeIndex :: int
  p_radius :: float32
  day :: float32
  year :: float32
  probTemp :: float32
  probGrav :: float32
  probAtmo :: float32
  atmosphere :: UniverseAtmosphere

text \<open>
  The constructor \<^verbatim>\<open>UniversePlanet()\<close>. The members without an initialiser
  (\<^verbatim>\<open>seed\<close>, \<^verbatim>\<open>equatorTemperature\<close>, \<^verbatim>\<open>poleTemperature\<close>) are written as 0 here;
  \<^verbatim>\<open>genPlanet\<close> assigns each of them before anything reads it.
\<close>

definition UniversePlanet_new :: UniversePlanet where
  "UniversePlanet_new =
     \<lparr> p_seed = 0, p_position = [0, 0, 0], starDistance = 0, isInHz = False, p_mass = 0,
       p_mu = 0, p_temperature = 0, equatorTemperature = 0, poleTemperature = 0,
       p_typeIndex = -1, p_radius = 1000, day = 0, year = 0, probTemp = 0, probGrav = 0,
       probAtmo = 0, atmosphere = UniverseAtmosphere_new \<rparr>"

definition planetTemperature :: "float32 \<Rightarrow> float32 \<Rightarrow> float32" where
  "planetTemperature Lstar distAu =
     (let Aabs_Arad = 0.25;
          albedo = 0.0;
          eta = 1.0;
          L = Lstar * Lsol
      in (Aabs_Arad * (L * (1.0 - albedo)
            / (4 * pi * Lsigma * eta * (distAu * au2km * 10 ^ 3) ^ 2))) powr 0.25)"

text \<open>
  \<^verbatim>\<open>getPlanetTypeIndex\<close>: the zone is 6 unless one of the two tests changes it; the
  mass loop runs \<open>i\<close> over 0..5 and keeps the last class whose open interval holds the
  mass in Earth masses.
\<close>

definition getPlanetTypeIndex :: "UniversePlanet \<Rightarrow> float32 \<Rightarrow> float32 \<Rightarrow> int" where
  "getPlanetTypeIndex planet hzMinAu hzMaxAu =
     (let iZoneIdx = 6;
          iZoneIdx = (if starDistance planet < hzMinAu then 0 else iZoneIdx);
          iZoneIdx = (if starDistance planet > hzMaxAu then 12 else iZoneIdx);
          iMassIdx = fold (\<lambda>i iMassIdx.
                       if p_mass planet / Mearth > Mearth_min ! i \<and>
                          p_mass planet / Mearth < Mearth_max ! i
                       then int i else iMassIdx) [0..<6] 0
      in iZoneIdx + iMassIdx)"

definition getPeriodicTypeColumn :: "int \<Rightarrow> int" where
  "getPeriodicTypeColumn typeIndex = (if typeIndex > -1 then typeIndex mod 6 else -1)"

text \<open>
  \<^verbatim>\<open>createAtmosphere\<close> takes the generator by reference and returns the atmosphere; the
  model returns the advanced generator with it. The call of \<^verbatim>\<open>createComposition\<close>
  works on a copy of the generator, so the generator returned is the one after the
  pressure draw. A \<open>typeIndex\<close> outside the 18-entry tables is \<open>None\<close>.
\<close>

definition createAtmosphere ::
  "'r pcg32 \<Rightarrow> int \<Rightarrow> float32 \<Rightarrow> 'r \<Rightarrow> (UniverseAtmosphere \<times> 'r) option" where
  "createAtmosphere R typeIndex planetRadius rnd =
     (if typeIndex < 0 \<or> 18 \<le> typeIndex then None
      else
        (let d0 = nextFloat R rnd;
             atmProb = fst d0
         in if atmProb > atmosphereProbabilityMax ! nat typeIndex
            then Some (UniverseAtmosphere_new, snd d0)
            else
              (let d1 = (if getPeriodicTypeColumn typeIndex \<le> 3
                         then (let d = nextFloat R (snd d0)
                               in (planetRadius * (1.01 + fst d * 0.09), snd d))
                         else (planetRadius, snd d0));
                   d2 = nextFloat R (snd d1);
                   pressure = atmospherePressureMin ! nat typeIndex
                     + fst d2 * (atmospherePressureMax ! nat typeIndex
                                 - atmospherePressureMin ! nat typeIndex)
               in case createComposition R [] (snd d2) of
                    None \<Rightarrow> None
                  | Some composition \<Rightarrow>
                      Some (\<lparr> a_radius = fst d1, a_pressure = pressure,
                              a_composition = composition \<rparr>, snd d2))))"

text \<open>
  \<^verbatim>\<open>calcPlanetHabitability\<close> writes \<open>probTemp\<close> and \<open>probGrav\<close> into the planet:
  each of the two \<^verbatim>\<open>if\<close>/\<^verbatim>\<open>else\<close> statements assigns the member in both branches.
\<close>

definition calcPlanetHabitability :: "UniversePlanet \<Rightarrow> UniversePlanet" where
  "calcPlanetHabitability planet =
     (let pTemp = (if p_temperature planet < 223 \<or> p_temperature planet > 323 then 0
                   else 1 - \<bar>293 - p_temperature planet\<bar> / 70);
          grel = (if p_mass planet \<noteq> 0 \<and> p_radius planet \<noteq> 0
                  then (G * p_mass planet / (p_radius planet * 10 ^ 3) ^ 2) / gEarth
                  else 0);
          pGrav = (if grel < 0.2 \<or> grel > 3.0 then 0 else 1 - \<bar>1 - grel\<bar> / 2)
      in planet\<lparr>probTemp := pTemp, probGrav := pGrav\<rparr>)"

text \<open>
  \<^verbatim>\<open>getPlanetHabitability\<close> returns the score and leaves the probabilities in the
  planet it was given by reference. The call of \<^verbatim>\<open>atmosphereHabitability\<close> passes the
  composition only, so the pressure is the default argument \<open>1.0\<close>.
\<close>

definition getPlanetHabitability :: "UniversePlanet \<Rightarrow> float32 \<times> UniversePlanet" where
  "getPlanetHabitability planet =
     (let planet1 = calcPlanetHabitability planet
      in if \<not> isInHz planet1 then (0, planet1)
         else if exists_atm (atmosphere planet1)
         then (probTemp planet1 * probGrav planet1
                 * atmosphereHabitability (a_composition (atmosphere planet1)) 1, planet1)
         else (probTemp planet1 * probGrav planet1, planet1))"

section \<open>Model of the star\<close>

definition spectralClass :: "string list" where
  "spectralClass =
     [''B'', ''A'', ''F'', ''G'', ''K'', ''M'', ''G'', ''K'', ''M'', ''O'', ''B'', ''A'',
      ''F'', ''G'', ''K'', ''M'', ''L'', ''T'', ''Y'', ''D'', ''R'', ''N'', ''S'', ''W'']"

definition luminosityClass :: "string list" where
  "luminosityClass =
     [''I'', ''I'', ''I'', ''I'', ''I'', ''I'', ''III'', ''III'', ''III'', ''V'', ''V'', ''V'',
      ''V'', ''V'', ''V'', ''V'', ''V'', ''V'', [], [], [], [], [], []]"

definition starDesignation :: "string list" where
  "starDesignation =
     [''blue supergiant'', ''supergiant'', ''supergiant'',
      ''supergiant'', ''red supergiant'', ''red supergiant'',
      ''regular giant'', ''regular giant'', ''regular giant'',
      ''main-sequence'', ''main-sequence'', ''main-sequence'',
      ''main-sequence'', ''main-sequence'', ''orange dwarf'',
      ''red dwarf'', ''red dwarf'', ''methane dwarf'',
      ''brown dwarf'', ''white dwarf'', ''carbon-based'',
      ''carbon-based'', ''zirconium-monoxide-based star'', ''dying supergiant'']"

definition starTypeProbability :: "float32 list" where
  "starTypeProbability =
     [0.015152, 0.030303, 0.045455,
      0.060606, 0.075758, 0.090909,
      0.106061, 0.121212, 0.136364,
      0.166667, 0.242424, 0.378788,
      0.530303, 0.681818, 0.833333,
      0.924242, 0.969697, 0.984848,
      0.992424, 0.993939, 0.995454,
      0.996970, 0.998485, 1.000000]"

definition minRadius :: "float32 list" where
  "minRadius =
     [30.0, 30.0, 30.0, 30.0, 25.0, 11.0,
      20.0, 15.0, 10.0,
      6.6, 1.8, 1.4,
      1.15, 0.96, 0.70, 0.08,
      0.08, 0.008, 0.08, 0.08,
      0.01, 0.01, 0.01, 0.01]"

definition maxRadius :: "float32 list" where
  "maxRadius =
     [2000.0, 1900.0, 1800.0, 1700.0, 1600.0, 1.0,
      200.0, 50.0, 30.0,
      30.0, 6.6, 1.8,
      1.40, 1.15, 0.96, 0.62,
      0.15, 0.1, 0.14, 0.1,
      0.1, 0.1, 0.1, 0.1]"

definition minMass :: "float32 list" where
  "minMass =
     [10.0, 5.0, 4.0, 3.0, 2.0, 7.0,
      30.0, 20.0, 3.0,
      16.0, 2.1, 1.4,
      1.04, 0.8, 0.08, 0.075,
      0.005, 0.005, 0.0005, 0.005,
      0.005, 0.005, 0.005, 0.005]"

definition maxMass :: "float32 list" where
  "maxMass =
     [100.0, 30.0, 20.0, 11.0, 40.0, 40.0,
      100.0, 70.0, 15.0,
      200.0, 24000.0, 2.1,
      1.4, 1.04, 0.45, 0.6,
      0.08, 0.008, 0.02, 0.008,
      0.08, 0.08, 0.08, 0.08]"

definition minTemperature :: "float32 list" where
  "minTemperature =
     [9700.0, 8300.0, 6150.0, 5050.0, 3750.0, 2950.0,
      4870.0, 3780.0, 2800.0,
      3780.0, 11400.0, 7920.0,
      6300.0, 5440.0, 4000.0, 2600.0,
      1500.0, 800.0, 500.0, 500.0,
      500.0, 500.0, 500.0, 500.0]"

definition maxTemperature :: "float32 list" where
  "maxTemperature =
     [21000.0, 9400.0, 7500.0, 5800.0, 4900.0, 3690.0,
      5010.0, 4720.0, 3660.0,
      54000.0, 29200.0, 9600.0,
      7350.0, 6050.0, 5240.0, 3750.0,
      2600.0, 1400.0, 1000.0, 800.0,
      800.0, 800.0, 800.0, 800.0]"

text \<open>
  \<^verbatim>\<open>struct UniverseStar\<close>. The members that no function of the library assigns
  (\<^verbatim>\<open>name\<close>, \<^verbatim>\<open>position\<close>, \<^verbatim>\<open>outputVariation\<close>, \<^verbatim>\<open>magnitude\<close>, \<^verbatim>\<open>positionReference\<close>,
  \<^verbatim>\<open>mu\<close>, \<^verbatim>\<open>orbitPeriod\<close>, \<^verbatim>\<open>metallicity\<close>, \<^verbatim>\<open>solarCycle\<close>) are left out.
  \<^verbatim>\<open>float hzDistAu[8]\<close> is a list.
\<close>

record UniverseStar =
  s_seed :: uint64_t
  s_typeIndex :: uint
  s_spectralClass :: string
  temperatureSequence :: string
  s_luminosityClass :: string
  stellarType :: string
  designation :: string
  s_mass :: float32
  luminosity :: float32
  s_temperature :: float32
  s_radius :: float32
  color :: "byte list"
  hzDistAu :: "float32 list"
  frostLimitAu :: float32
  planets :: "uint64_t \<rightharpoonup> UniversePlanet"
  planetsCount :: uint
  axialRotation :: float32

text \<open>
  The constructor \<^verbatim>\<open>UniverseStar()\<close>. \<^verbatim>\<open>seed\<close>, \<^verbatim>\<open>hzDistAu\<close> and \<^verbatim>\<open>planetsCount\<close> have
  no initialiser; they are written as zeros here, and \<^verbatim>\<open>genPlanets\<close>, the one function
  that could read them before \<^verbatim>\<open>genStar\<close> wrote them, is \<open>None\<close> in that case.
\<close>

definition UniverseStar_new :: UniverseStar where
  "UniverseStar_new =
     \<lparr> s_seed = 0, s_typeIndex = 0, s_spectralClass = [], temperatureSequence = [],
       s_luminosityClass = [], stellarType = [], designation = [], s_mass = 0,
       luminosity = 0, s_temperature = 0, s_radius = 0, color = [0, 0, 0],
       hzDistAu = replicate 8 0, frostLimitAu = 0, planets = Map.empty, planetsCount = 0,
       axialRotation = 0 \<rparr>"

definition getStarMassDensity :: "float32 \<Rightarrow> float32 \<Rightarrow> float32 \<Rightarrow> float32" where
  "getStarMassDensity starMass frostLimit posAu =
     (if posAu < frostLimit
      then 4.2 * 10 ^ 24 * starMass * normalDistribution posAu (frostLimit / 2.0) (frostLimit / 16.0)
      else 8.0 * 10 ^ 26 * starMass * inverseExpDistribution posAu 0.5)"

definition calcFrostLimit :: "float32 \<Rightarrow> float32" where
  "calcFrostLimit lumStar =
     sqrt (0.25 * lumStar * Lsol / (5.0625 * 10 ^ 8 * 4 * pi * Lsigma)) * m2au"

text \<open>
  The coefficient tables of \<^verbatim>\<open>habitableZoneComplete\<close> are each declared as
  \<^verbatim>\<open>float t[8] = { t[1] = v1, t[2] = v2, ..., t[7] = v7 }\<close>: seven initialiser clauses
  for eight elements, each clause an assignment expression. Clause \<open>k\<close> (from 0) first
  writes \<open>t[k+1]\<close> and then its value initialises \<open>t[k]\<close>; the clauses are evaluated in
  order, so the write to \<open>t[k+1]\<close> is replaced when element \<open>k+1\<close> is initialised, and
  element 7, which has no clause, is value-initialised to 0 last. The lists below are
  the resulting arrays. The properties proved further down hold for any coefficients.
\<close>

definition seffsun :: "float32 list" where
  "seffsun = [1.7763, 1.0385, 1.0146, 0.3507, 0.3207, 0.2484, 0.5408, 0]"

definition hz_a :: "float32 list" where
  "hz_a = [1.4335 / 10 ^ 4, 1.2456 / 10 ^ 4, 8.1884 / 10 ^ 5, 5.9578 / 10 ^ 5,
           5.4471 / 10 ^ 5, 4.2588 / 10 ^ 5, 4.4499 / 10 ^ 5, 0]"

definition hz_b :: "float32 list" where
  "hz_b = [3.3954 / 10 ^ 9, 1.4612 / 10 ^ 8, 1.9394 / 10 ^ 9, 1.6707 / 10 ^ 9,
           1.5275 / 10 ^ 9, 1.1963 / 10 ^ 9, 1.4065 / 10 ^ 10, 0]"

definition hz_c :: "float32 list" where
  "hz_c = [- 7.6364 / 10 ^ 12, - 7.6345 / 10 ^ 12, - 4.3618 / 10 ^ 12, - 3.0058 / 10 ^ 12,
           - 2.7481 / 10 ^ 12, - 2.1709 / 10 ^ 12, - 2.2750 / 10 ^ 12, 0]"

definition hz_d :: "float32 list" where
  "hz_d = [- 1.1950 / 10 ^ 15, - 1.7511 / 10 ^ 15, - 6.8260 / 10 ^ 16, - 5.1925 / 10 ^ 16,
           - 4.7474 / 10 ^ 16, - 3.8282 / 10 ^ 16, - 3.3509 / 10 ^ 16, 0]"

definition sEff :: "nat \<Rightarrow> float32 \<Rightarrow> float32" where
  "sEff i tStar =
     max (seffsun ! i + hz_a ! i * tStar + hz_b ! i * tStar ^ 2 + hz_c ! i * tStar ^ 3
            + hz_d ! i * tStar ^ 4) 0"

text \<open>
  \<^verbatim>\<open>habitableZoneComplete\<close> fills the caller's array; the model returns the eight values.
\<close>

definition habitableZoneComplete :: "float32 \<Rightarrow> float32 \<Rightarrow> float32 list" where
  "habitableZoneComplete tEff lumStar =
     (let tStar = tEff - 5780.0
      in 0 # map (\<lambda>i. if sEff i tStar = 0 then 0 else sqrt (lumStar / sEff i tStar)) [1..<8])"

definition calcLuminosity :: "float32 \<Rightarrow> float32" where
  "calcLuminosity mass =
     (let luminosity = 0.0;
          massMSol = mass;
          luminosity = (if massMSol < 0.43 then 0.23 * massMSol powr 2.3 else luminosity);
          luminosity = (if massMSol \<ge> 0.43 \<and> massMSol < 2.0 then massMSol powr 4.0
                        else luminosity);
          luminosity = (if massMSol \<ge> 2.0 \<and> massMSol < 20.0 then 1.5 * massMSol powr 3.5
                        else luminosity);
          luminosity = (if massMSol \<ge> 20.0 then 3200.0 * massMSol else luminosity)
      in luminosity)"

text \<open>
  The two clamps that follow each colour channel, and the cast \<^verbatim>\<open>(byte)\<close> of a float
  (truncation towards zero, then the low eight bits).
\<close>

definition clamp255 :: "float32 \<Rightarrow> float32" where
  "clamp255 x = (let x = (if x < 0 then 0 else x) in if x > 255 then 255 else x)"

definition float_to_int :: "float32 \<Rightarrow> int" where
  "float_to_int x = (if 0 \<le> x then \<lfloor>x\<rfloor> else \<lceil>x\<rceil>)"

definition to_byte :: "float32 \<Rightarrow> byte" where
  "to_byte x = word_of_int (float_to_int x)"

definition getStarColor :: "float32 \<Rightarrow> byte list" where
  "getStarColor starTemperatureK =
     (let temperature = starTemperatureK / 100.0;
          red = (if temperature \<le> 66.0 then 255
                 else clamp255 (329.698727446 * (temperature - 60.0) powr (- 0.1332047592)));
          green = (if temperature \<le> 66.0
                   then clamp255 (99.4708025861 * ln temperature - 161.1195681661)
                   else clamp255 (288.1221695283 * (temperature - 60.0) powr (- 0.0755148492)));
          blue = (if temperature \<ge> 66.0 then 255
                  else if temperature \<le> 19.0 then 0
                  else clamp255 (138.5177312231 * ln (temperature - 10) - 305.0447927307))
      in [to_byte red, to_byte green, to_byte blue])"

text \<open>\<^verbatim>\<open>std::to_string\<close> of an \<^verbatim>\<open>int\<close>: the decimal digits, with a minus sign.\<close>

fun digits10 :: "nat \<Rightarrow> string" where
  "digits10 n =
     (if n < 10 then [char_of (48 + n)] else digits10 (n div 10) @ [char_of (48 + n mod 10)])"

declare digits10.simps [simp del]

definition to_string :: "int \<Rightarrow> string" where
  "to_string i = (if i < 0 then CHR ''-'' # digits10 (nat (- i)) else digits10 (nat i))"

definition genStarTemperatureSequence :: "int \<Rightarrow> float32 \<Rightarrow> string" where
  "genStarTemperatureSequence idx temperature =
     (let temperatureMin = minTemperature ! nat idx;
          temperatureMax = maxTemperature ! nat idx;
          step = (temperatureMax - temperatureMin) / 10;
          mult = (temperatureMax - temperature) / step
      in to_string (float_to_int mult))"

section \<open>Model of the system, the sector and the galaxy\<close>

definition starSystemMultiProbability :: "float32 list" where
  "starSystemMultiProbability = [0.800, 0.900, 0.950, 0.975, 0.988, 0.996, 1.000]"

text \<open>
  \<^verbatim>\<open>struct UniverseSystem\<close> and \<^verbatim>\<open>struct UniverseSector\<close>, without the \<^verbatim>\<open>name\<close> members,
  which stay empty. The constructors leave \<^verbatim>\<open>seed\<close> and \<^verbatim>\<open>sector\<close> uninitialised;
  they are written as 0.
\<close>

record UniverseSystem =
  sys_seed :: uint64_t
  sector :: uint64_t
  sys_position :: "real list"
  stars :: "uint64_t \<rightharpoonup> UniverseStar"
  multiplicity :: int

definition UniverseSystem_new :: UniverseSystem where
  "UniverseSystem_new =
     \<lparr> sys_seed = 0, sector = 0, sys_position = [], stars = Map.empty, multiplicity = 0 \<rparr>"

record UniverseSector =
  sec_seed :: uint64_t
  sec_position :: "real list"
  systemSeeds :: "uint64_t list"

definition UniverseSector_new :: UniverseSector where
  "UniverseSector_new = \<lparr> sec_seed = 0, sec_position = [], systemSeeds = [] \<rparr>"

text \<open>
  \<^verbatim>\<open>class ProcUGalaxy\<close>: the configuration, the galaxy seed, the member generator
  \<open>rng\<close> and the two catalogues.
\<close>

record 'r ProcUGalaxy =
  GALAXY_TYPE :: int
  GALAXY_SIZE_LY :: "real list"
  SECTOR_SIZE_LY :: real
  MAX_SYSTEMS :: int
  MAX_STARS :: int
  MAX_PLANETS :: int
  galaxySeed :: uint64_t
  rng :: 'r
  sectors :: "uint64_t \<rightharpoonup> UniverseSector"
  systems :: "uint64_t \<rightharpoonup> UniverseSystem"

definition ProcUGalaxy_new :: "'r pcg32 \<Rightarrow> 'r ProcUGalaxy" where
  "ProcUGalaxy_new R =
     \<lparr> GALAXY_TYPE = 0, GALAXY_SIZE_LY = [10 ^ 4, 100, 10 ^ 4], SECTOR_SIZE_LY = 10,
       MAX_SYSTEMS = 10, MAX_STARS = 3, MAX_PLANETS = 10, galaxySeed = 0, rng = rng_new R,
       sectors = Map.empty, systems = Map.empty \<rparr>"

text \<open>
  \<^verbatim>\<open>m[k]\<close> on a catalogue inserts a default-constructed value when the key is absent and
  then yields the stored value.
\<close>

definition system_at :: "'r ProcUGalaxy \<Rightarrow> uint64_t \<Rightarrow> UniverseSystem" where
  "system_at g k = (case systems g k of None \<Rightarrow> UniverseSystem_new | Some S \<Rightarrow> S)"

definition star_at :: "UniverseSystem \<Rightarrow> uint64_t \<Rightarrow> UniverseStar" where
  "star_at S k = (case stars S k of None \<Rightarrow> UniverseStar_new | Some s \<Rightarrow> s)"

definition sector_at :: "'r ProcUGalaxy \<Rightarrow> uint64_t \<Rightarrow> UniverseSector" where
  "sector_at g k = (case sectors g k of None \<Rightarrow> UniverseSector_new | Some s \<Rightarrow> s)"

text \<open>\<^verbatim>\<open>systems[systemSeed].stars[starSeed] = star\<close>\<close>

definition put_star ::
  "uint64_t \<Rightarrow> uint64_t \<Rightarrow> UniverseStar \<Rightarrow> 'r ProcUGalaxy \<Rightarrow> 'r ProcUGalaxy" where
  "put_star systemSeed starSeed star g =
     (let S = system_at g systemSeed
      in g\<lparr>systems := (systems g)(systemSeed \<mapsto> S\<lparr>stars := (stars S)(starSeed \<mapsto> star)\<rparr>)\<rparr>)"

text \<open>\<^verbatim>\<open>systems[systemSeed].stars[starSeed].planets[planetSeed] = planet\<close>\<close>

definition put_planet ::
  "uint64_t \<Rightarrow> uint64_t \<Rightarrow> uint64_t \<Rightarrow> UniversePlanet \<Rightarrow> 'r ProcUGalaxy \<Rightarrow> 'r ProcUGalaxy" where
  "put_planet systemSeed starSeed planetSeed planet g =
     (let S = system_at g systemSeed;
          star = star_at S starSeed
      in put_star systemSeed starSeed
           (star\<lparr>planets := (planets star)(planetSeed \<mapsto> planet)\<rparr>) g)"

subsection \<open>Seeds\<close>

text \<open>
  \<^verbatim>\<open>getSectorSeed\<close>, \<^verbatim>\<open>getStarSeeds\<close> and \<^verbatim>\<open>getPlanetSeeds\<close> mix \<^verbatim>\<open>double\<close> literals into
  the sum, so C++ computes them in \<^verbatim>\<open>double\<close> and converts back; with exact
  arithmetic that is the integer sum, reduced to 64 bits. \<^verbatim>\<open>getSystemSeeds\<close> is
  integer arithmetic throughout.
\<close>

definition setGalaxySeed :: "'r pcg32 \<Rightarrow> uint64_t \<Rightarrow> 'r ProcUGalaxy \<Rightarrow> 'r ProcUGalaxy" where
  "setGalaxySeed R seed g = g\<lparr>galaxySeed := seed, rng := rng_seed R seed\<rparr>"

definition getSectorSeed :: "'r ProcUGalaxy \<Rightarrow> int \<Rightarrow> int \<Rightarrow> int \<Rightarrow> uint64_t" where
  "getSectorSeed g x y z =
     word_of_int (uint (galaxySeed g) + 6 * 10 ^ 14 + x * 10 ^ 9 + z * 10 ^ 5 + y)"

definition getSystemSeeds :: "'r ProcUGalaxy \<Rightarrow> uint64_t \<Rightarrow> uint64_t list" where
  "getSystemSeeds g uSectorSeed =
     map (\<lambda>n. uSectorSeed + 123 + 10 ^ 11 * word_of_nat n) [0..<nat (MAX_SYSTEMS g)]"

definition getStarSeeds :: "uint64_t \<Rightarrow> 8 word \<Rightarrow> uint64_t list" where
  "getStarSeeds uSystemSeed howMany =
     map (\<lambda>n. word_of_int (sint uSystemSeed + 187600000 + 10 ^ 4 * int n)) [0..<unat howMany]"

definition getPlanetSeeds :: "uint64_t \<Rightarrow> 8 word \<Rightarrow> uint64_t list" where
  "getPlanetSeeds uStarSeed howMany =
     map (\<lambda>n. word_of_int (sint uStarSeed + 5432 + int n * 10 ^ 4 + int n)) [0..<unat howMany]"

subsection \<open>Sectors and systems\<close>

definition genSector :: "'r ProcUGalaxy \<Rightarrow> int \<Rightarrow> int \<Rightarrow> int \<Rightarrow> UniverseSector" where
  "genSector g x y z =
     UniverseSector_new\<lparr>sec_seed := getSectorSeed g x y z,
                         sec_position := [real_of_int x, real_of_int y, real_of_int z]\<rparr>"

text \<open>
  \<^verbatim>\<open>genSystem\<close> declares a local generator \<^verbatim>\<open>pcg32 rng(systemSeed)\<close>, which hides the
  member; the member generator is not touched. The function has no test of the
  catalogue: it draws, stores the new system under its seed and returns it.
\<close>

definition genSystem ::
  "'r pcg32 \<Rightarrow> uint64_t \<Rightarrow> 'r ProcUGalaxy \<Rightarrow> UniverseSystem \<times> 'r ProcUGalaxy" where
  "genSystem R systemSeed g =
     (let r0 = rng_seed R systemSeed;
          dx = nextDouble R r0;
          dy = nextDouble R (snd dx);
          dz = nextDouble R (snd dy);
          drn = nextFloat R (snd dz);
          rnum = fst drn;
          system = UniverseSystem_new
            \<lparr>sys_seed := systemSeed,
             sys_position := [fst dx * SECTOR_SIZE_LY g, fst dy * SECTOR_SIZE_LY g,
                              fst dz * SECTOR_SIZE_LY g],
             multiplicity := getRndCdfIdx rnum starSystemMultiProbability + 1\<rparr>
      in (system, g\<lparr>systems := (systems g)(systemSeed \<mapsto> system)\<rparr>))"

definition genSystems :: "uint64_t \<Rightarrow> 'r ProcUGalaxy \<Rightarrow> 'r ProcUGalaxy" where
  "genSystems sectorSeed g =
     g\<lparr>sectors := (sectors g)(sectorSeed \<mapsto>
          (sector_at g sectorSeed)\<lparr>systemSeeds := getSystemSeeds g sectorSeed\<rparr>)\<rparr>"

subsection \<open>Stars\<close>

text \<open>
  \<^verbatim>\<open>genStar\<close> reseeds the member generator with the star seed and draws, in this order:
  the type, the mass, the radius, the temperature, the planet count.
\<close>

definition genStar ::
  "'r pcg32 \<Rightarrow> uint64_t \<Rightarrow> 'r ProcUGalaxy \<Rightarrow> UniverseStar \<times> 'r ProcUGalaxy" where
  "genStar R starSeed g =
     (let r0 = rng_seed R starSeed;
          d0 = nextFloat R r0;
          idx = getRndCdfIdx (fst d0) starTypeProbability;
          massMin = minMass ! nat idx;
          massMax = maxMass ! nat idx;
          d1 = nextFloat R (snd d0);
          mass = massMin + fst d1 * (massMax - massMin);
          radiusMin = minRadius ! nat idx;
          radiusMax = maxRadius ! nat idx;
          d2 = nextFloat R (snd d1);
          radius = radiusMin + fst d2 * (radiusMax - radiusMin);
          lum = calcLuminosity mass;
          temperatureMin = minTemperature ! nat idx;
          temperatureMax = maxTemperature ! nat idx;
          d3 = nextFloat R (snd d2);
          temperature = temperatureMin + fst d3 * (temperatureMax - temperatureMin);
          spectral = spectralClass ! nat idx;
          lumClass = luminosityClass ! nat idx;
          tempSeq = genStarTemperatureSequence idx temperature;
          d4 = nextUInt R 8 (snd d3);
          star = UniverseStar_new
            \<lparr>s_seed := starSeed,
             s_typeIndex := word_of_int idx,
             s_spectralClass := spectral,
             temperatureSequence := tempSeq,
             s_luminosityClass := lumClass,
             stellarType := spectral @ tempSeq @ lumClass,
             designation := starDesignation ! nat idx,
             s_mass := mass,
             luminosity := lum,
             s_temperature := temperature,
             s_radius := radius,
             color := getStarColor temperature,
             hzDistAu := habitableZoneComplete temperature lum,
             frostLimitAu := calcFrostLimit lum,
             planetsCount := fst d4,
             axialRotation := pi * radius * Rsol / mass\<rparr>
      in (star, g\<lparr>rng := snd d4\<rparr>))"

text \<open>
  \<^verbatim>\<open>genStars\<close>: the loop runs \<open>i\<close> from 0 while \<open>i < multiplicity\<close>; \<open>k\<close> counts the
  iterations left. \<^verbatim>\<open>starSeeds[i]\<close> beyond the vector is \<open>None\<close>.
\<close>

fun genStars_loop ::
  "'r pcg32 \<Rightarrow> uint64_t \<Rightarrow> uint64_t list \<Rightarrow> nat \<Rightarrow> nat \<Rightarrow> 'r ProcUGalaxy
     \<Rightarrow> 'r ProcUGalaxy option" where
  "genStars_loop R systemSeed starSeeds i 0 g = Some g"
| "genStars_loop R systemSeed starSeeds i (Suc k) g =
     (if length starSeeds \<le> i then None
      else
        (let res = genStar R (starSeeds ! i) g
         in genStars_loop R systemSeed starSeeds (i + 1) k
              (put_star systemSeed (starSeeds ! i) (fst res) (snd res))))"

definition genStars :: "'r pcg32 \<Rightarrow> uint64_t \<Rightarrow> 'r ProcUGalaxy \<Rightarrow> 'r ProcUGalaxy option" where
  "genStars R systemSeed g =
     (let S = system_at g systemSeed;
          g1 = g\<lparr>systems := (systems g)(systemSeed \<mapsto> S)\<rparr>;
          starSeeds = getStarSeeds systemSeed (word_of_int (multiplicity S))
      in genStars_loop R systemSeed starSeeds 0 (nat (multiplicity S)) g1)"

subsection \<open>Planets\<close>

text \<open>
  \<^verbatim>\<open>genPlanet\<close> reseeds the member generator with the planet seed, so the generator it
  is entered with plays no part. \<^verbatim>\<open>lowerLimitAu\<close> is passed by reference and updated;
  the model returns the planet, the new lower limit and the galaxy with the advanced
  generator.
\<close>

definition genPlanet ::
  "'r pcg32 \<Rightarrow> uint64_t \<Rightarrow> UniverseStar \<Rightarrow> float32 \<Rightarrow> float32 \<Rightarrow> 'r ProcUGalaxy
     \<Rightarrow> (UniversePlanet \<times> float32 \<times> 'r ProcUGalaxy) option" where
  "genPlanet R planetSeed star planetDistanceAu lowerLimitAu g =
     (let r0 = rng_seed R planetSeed;
          inHz = (planetDistanceAu > hzDistAu star ! 1 \<and> planetDistanceAu < hzDistAu star ! 5);
          upperLimitAu = planetDistanceAu + planetDistanceAu - lowerLimitAu;
          massDensity = getStarMassDensity (s_mass star) (frostLimitAu star) planetDistanceAu;
          mass = massDensity * (upperLimitAu - lowerLimitAu);
          temperature = planetTemperature (luminosity star) planetDistanceAu;
          d0 = nextFloat R r0;
          deviation0 = fst d0 * 50.0;
          d1 = nextFloat R (snd d0);
          deviation1 = fst d1 * 50.0;
          planet1 = UniversePlanet_new
            \<lparr>p_seed := planetSeed,
             p_position := [planetDistanceAu, 0, 0],
             starDistance := planetDistanceAu,
             isInHz := inHz,
             p_mass := mass,
             p_mu := G * mass,
             p_temperature := temperature,
             equatorTemperature := temperature + deviation0,
             poleTemperature := temperature - deviation1\<rparr>;
          typeIndex = getPlanetTypeIndex planet1 (hzDistAu star ! 1) (hzDistAu star ! 5);
          d2 = nextFloat R (snd d1);
          radius = (Rearth_min ! nat typeIndex
                      + fst d2 * (Rearth_max ! nat typeIndex - Rearth_min ! nat typeIndex))
                   * Rearth
      in case createAtmosphere R typeIndex radius (snd d2) of
           None \<Rightarrow> None
         | Some (atm, r3) \<Rightarrow>
             Some (planet1\<lparr>p_typeIndex := typeIndex,
                           p_radius := radius,
                           day := 2 * pi * radius,
                           year := sqrt (planetDistanceAu ^ 3) * yearEarth,
                           atmosphere := atm\<rparr>,
                   upperLimitAu,
                   g\<lparr>rng := r3\<rparr>))"

text \<open>
  The placement of the next planet, the \<^verbatim>\<open>if\<close>/\<^verbatim>\<open>else\<close> at the head of the loop body of
  \<^verbatim>\<open>genPlanets\<close>: it draws from the member generator and gives the new
  \<^verbatim>\<open>planetDistanceAu\<close>.
\<close>

definition planetDistance ::
  "'r pcg32 \<Rightarrow> UniverseStar \<Rightarrow> float32 \<Rightarrow> float32 \<Rightarrow> 'r ProcUGalaxy
     \<Rightarrow> float32 \<times> 'r ProcUGalaxy" where
  "planetDistance R star lowerLimitAu planetDistanceAu g =
     (let d = nextFloat R (rng g)
      in if lowerLimitAu < frostLimitAu star
         then (lowerLimitAu + 0.1 + fst d * (frostLimitAu star - lowerLimitAu), g\<lparr>rng := snd d\<rparr>)
         else
           (let planetDistanceAu = planetDistanceAu * (1.5 + fst d);
                planetDistanceAu = (if planetDistanceAu \<le> lowerLimitAu
                                    then planetDistanceAu + lowerLimitAu
                                    else planetDistanceAu)
            in (planetDistanceAu, g\<lparr>rng := snd d\<rparr>)))"

text \<open>
  The loop of \<^verbatim>\<open>genPlanets\<close>: \<open>i\<close> is the loop index, \<open>k\<close> counts the iterations left.
  \<open>star\<close> is the star the reference was bound to at the start; the loop changes
  nothing of it but the planet map, which \<^verbatim>\<open>genPlanet\<close> does not read. Next to the
  galaxy the loop returns a log with one entry per iteration, in order: the lower limit
  the iteration started with, the planet it made, and the lower limit it left (the
  local \<^verbatim>\<open>upperLimitAu\<close> of \<^verbatim>\<open>genPlanet\<close>).
\<close>

type_synonym band = "float32 \<times> UniversePlanet \<times> float32"

fun genPlanets_loop ::
  "'r pcg32 \<Rightarrow> uint64_t \<Rightarrow> uint64_t \<Rightarrow> UniverseStar \<Rightarrow> uint64_t list \<Rightarrow> nat \<Rightarrow> nat
     \<Rightarrow> float32 \<Rightarrow> float32 \<Rightarrow> 'r ProcUGalaxy \<Rightarrow> ('r ProcUGalaxy \<times> band list) option" where
  "genPlanets_loop R systemSeed starSeed star planetSeeds i 0 lowerLimitAu planetDistanceAu g =
     Some (g, [])"
| "genPlanets_loop R systemSeed starSeed star planetSeeds i (Suc k) lowerLimitAu planetDistanceAu g =
     (if length planetSeeds \<le> i then None
      else
        (let pd = planetDistance R star lowerLimitAu planetDistanceAu g
         in case genPlanet R (planetSeeds ! i) star (fst pd) lowerLimitAu (snd pd) of
              None \<Rightarrow> None
            | Some (planet, lowerLimitAu', g2) \<Rightarrow>
                (case genPlanets_loop R systemSeed starSeed star planetSeeds (i + 1) k
                        lowerLimitAu' (fst pd)
                        (put_planet systemSeed starSeed (planetSeeds ! i) planet g2) of
                   None \<Rightarrow> None
                 | Some (g3, bands) \<Rightarrow> Some (g3, (lowerLimitAu, planet, lowerLimitAu') # bands))))"

text \<open>
  \<^verbatim>\<open>genPlanets\<close>. When the system or the star is not in the catalogue, \<^verbatim>\<open>operator[]\<close>
  makes a star whose \<^verbatim>\<open>planetsCount\<close> was never written, and the function reads it:
  \<open>None\<close>. \<^verbatim>\<open>getPlanetSeeds\<close> takes the count as \<^verbatim>\<open>uint8_t\<close>, the loop bound is
  \<^verbatim>\<open>(int)star.planetsCount\<close>.
\<close>

definition genPlanets_log ::
  "'r pcg32 \<Rightarrow> uint64_t \<Rightarrow> uint64_t \<Rightarrow> 'r ProcUGalaxy \<Rightarrow> ('r ProcUGalaxy \<times> band list) option" where
  "genPlanets_log R systemSeed starSeed g =
     (case systems g systemSeed of
        None \<Rightarrow> None
      | Some S \<Rightarrow>
          (case stars S starSeed of
             None \<Rightarrow> None
           | Some star \<Rightarrow>
               (let g1 = g\<lparr>rng := rng_seed R starSeed\<rparr>;
                    planetSeeds = getPlanetSeeds starSeed (ucast (planetsCount star))
                in genPlanets_loop R systemSeed starSeed star planetSeeds 0
                     (nat (sint (planetsCount star))) 0 0 g1)))"

definition genPlanets ::
  "'r pcg32 \<Rightarrow> uint64_t \<Rightarrow> uint64_t \<Rightarrow> 'r ProcUGalaxy \<Rightarrow> 'r ProcUGalaxy option" where
  "genPlanets R systemSeed starSeed g = map_option fst (genPlanets_log R systemSeed starSeed g)"

subsection \<open>A small galaxy to run the functions on\<close>

text \<open>
  A replayed stream whose star seed 2 draws the type, mass, radius and temperature
  samples 0 and the planet count 2 (every other seed draws zeros); the star generated
  from seed 2; and a fresh galaxy that holds this star under system 1, stored the way
  \<^verbatim>\<open>genStars\<close> stores a star.
\<close>

abbreviation demo_book :: "uint64_t \<Rightarrow> nat list" where
  "demo_book \<equiv> (\<lambda>s. if s = 2 then [0, 0, 0, 0, 2] else [])"

abbreviation demo_star :: UniverseStar where
  "demo_star \<equiv> fst (genStar (replay demo_book) 2 (ProcUGalaxy_new (replay demo_book)))"

abbreviation demo_galaxy :: "(nat list) ProcUGalaxy" where
  "demo_galaxy \<equiv> put_star 1 2 demo_star (ProcUGalaxy_new (replay demo_book))"

section \<open>The generator parameter and the sampling helpers\<close>

text \<open>The replayed stream meets the contract, whatever the book.\<close>

lemma replay_float_range:
  "0 \<le> real (n mod 2 ^ 23) / 2 ^ 23 \<and> real (n mod 2 ^ 23) / 2 ^ 23 < 1"
proof -
  have "n mod 2 ^ 23 < 2 ^ 23" by simp
  then have "real (n mod 2 ^ 23) < 2 ^ 23"
    by (metis of_nat_less_iff of_nat_numeral of_nat_power)
  then show ?thesis by simp
qed

lemma replay_uint_range:
  fixes b :: uint
  assumes "b \<noteq> 0"
  shows "(word_of_nat (n mod unat b) :: uint) < b"
proof -
  have pos: "0 < unat b" using assms by (simp add: unat_gt_0)
  have "n mod unat b < unat b" using pos by simp
  moreover have "unat (word_of_nat (n mod unat b) :: uint) \<le> n mod unat b"
    by (simp add: unat_of_nat)
  ultimately show ?thesis by (simp add: word_less_nat_alt)
qed

lemma replay_contract: "pcg32_contract (replay book)"
proof -
  have f: "\<And>r. 0 \<le> fst (nextFloat (replay book) r) \<and> fst (nextFloat (replay book) r) < 1"
    using replay_float_range by (simp add: replay_def split: list.split)
  have d: "\<And>r. 0 \<le> fst (nextDouble (replay book) r) \<and> fst (nextDouble (replay book) r) < 1"
    using replay_float_range by (simp add: replay_def split: list.split)
  have u: "\<And>b r. b \<noteq> 0 \<Longrightarrow> fst (nextUInt (replay book) b r) < b"
    using replay_uint_range by (simp add: replay_def word_greater_zero_iff split: list.split)
  show ?thesis unfolding pcg32_contract_def using f d u by blast
qed

lemma replay_draws:
  "nextUInt (replay book) b (n # rest) = (if b = 0 then 0 else word_of_nat (n mod unat b), rest)"
  "nextFloat (replay book) (n # rest) = (real (n mod 2 ^ 23) / 2 ^ 23, rest)"
  "nextUInt (replay book) b [] = (0, [])"
  "nextFloat (replay book) [] = (0, [])"
  by (simp_all add: replay_def)

text \<open>Bounded draws of 2 and of 5, read as \<^verbatim>\<open>int\<close>.\<close>

lemma sint_small:
  fixes w :: uint
  assumes "uint w < 256"
  shows "sint w = uint w"
proof -
  have a: "- (2 ^ 31) \<le> uint w"
    by (rule order_trans [of _ 0]) simp_all
  have b: "uint w < 2 ^ 31" using assms by simp
  have "signed_take_bit 31 (uint w) = uint w"
    using a b by (rule signed_take_bit_int_eq_self)
  then show ?thesis by (simp add: sint_uint)
qed

lemma draw_2: 
  fixes w :: uint assumes "w < 2" shows "sint w = 0 \<or> sint w = 1"
proof -
  from assms have "uint w < 2" by (simp add: word_less_alt)
  moreover have "0 \<le> uint w" by simp
  ultimately have "uint w = 0 \<or> uint w = 1" by arith
  moreover have "sint w = uint w" using \<open>uint w < 2\<close> by (intro sint_small) simp
  ultimately show ?thesis by simp
qed

lemma draw_5: 
  fixes w :: uint assumes "w < 5" shows "0 \<le> sint w \<and> sint w < 5"
proof -
  from assms have "uint w < 5" by (simp add: word_less_alt)
  moreover have "0 \<le> uint w" by simp
  moreover have "sint w = uint w" using \<open>uint w < 5\<close> by (intro sint_small) simp
  ultimately show ?thesis by simp
qed

text \<open>
  \<^verbatim>\<open>getRndCdfIdx\<close> on a table that is not empty returns a position of the table.
\<close>

lemma getRndCdfIdx_loop_upper:
  "cdf \<noteq> [] \<Longrightarrow> getRndCdfIdx_loop rn cdf pos idx \<le> pos + int (length cdf) - 1"
proof (induction cdf arbitrary: pos idx)
  case Nil
  then show ?case by simp
next
  case (Cons ub rest)
  show ?case
  proof (cases "rest = []")
    case True
    then show ?thesis by simp
  next
    case False
    from Cons.IH [OF False, of "pos + 1" pos] show ?thesis by simp
  qed
qed

lemma getRndCdfIdx_loop_lower:
  "0 \<le> pos \<Longrightarrow> 0 \<le> idx \<Longrightarrow> 0 \<le> getRndCdfIdx_loop rn cdf pos idx"
  by (induction cdf arbitrary: pos idx) auto

lemma getRndCdfIdx_range:
  assumes "cdf \<noteq> []"
  shows "0 \<le> getRndCdfIdx rn cdf \<and> getRndCdfIdx rn cdf \<le> int (length cdf) - 1"
  using getRndCdfIdx_loop_upper [OF assms, of rn 0 0] getRndCdfIdx_loop_lower [of 0 0 rn cdf]
  by (simp add: getRndCdfIdx_def)

lemma starTypeIndex_range:
  "0 \<le> getRndCdfIdx rn starTypeProbability \<and> getRndCdfIdx rn starTypeProbability \<le> 23"
  using getRndCdfIdx_range [of starTypeProbability rn] by (simp add: starTypeProbability_def)

section \<open>The atmosphere\<close>

subsection \<open>The composition loop ends\<close>

text \<open>
  Under the contract every pass of the loop of \<^verbatim>\<open>createComposition\<close> picks an index
  inside \<^verbatim>\<open>componentOrder\<close> and adds at least \<open>1/20000\<close> to \<open>part\<close> or brings it
  to 1, so the loop returns.
\<close>

lemma maxPart_range:
  assumes "0 \<le> which" "which < 10"
  shows "1 / 10000 \<le> map_index elementProb (componentOrder ! nat which)"
proof -
  from assms have "which = 0 \<or> which = 1 \<or> which = 2 \<or> which = 3 \<or> which = 4 \<or> which = 5 
     \<or> which = 6 \<or> which = 7 \<or> which = 8 \<or> which = 9" by arith
  then show ?thesis
    by (auto simp: componentOrder_def elementProb_def map_index_def)
qed

lemma which_in_range:
  assumes c: "pcg32_contract R" and run: "0 \<le> (run::int)"
  defines "mn \<equiv> (if run = 0 then 0 else if run = 1 then 2 else (4::int))"
  defines "mx \<equiv> (if run = 0 then 2 else if run = 1 then 4 else (9::int))"
  shows "0 \<le> mn + sint (fst (nextUInt R (word_of_int (mx - mn)) rnd))
       \<and> mn + sint (fst (nextUInt R (word_of_int (mx - mn)) rnd)) < 9"
proof -
  have u: "\<And>b r. b \<noteq> 0 \<Longrightarrow> fst (nextUInt R b r) < b"
    using c by (simp add: pcg32_contract_def)
  consider "run = 0" | "run = 1" | "1 < run" using run by linarith
  then show ?thesis
  proof cases
    case 1
    have "fst (nextUInt R 2 rnd) < 2" by (rule u) simp
    from draw_2 [OF this] show ?thesis using 1 by (auto simp: mn_def mx_def)
  next
    case 2
    have "fst (nextUInt R 2 rnd) < 2" by (rule u) simp
    from draw_2 [OF this] show ?thesis using 2 by (auto simp: mn_def mx_def)
  next
    case 3
    have "fst (nextUInt R 5 rnd) < 5" by (rule u) simp
    from draw_5 [OF this] show ?thesis using 3 by (auto simp: mn_def mx_def)
  qed
qed

lemma createComposition_loop_unfold:
  assumes "part < 1" "0 \<le> run"
  shows "createComposition_loop R part run minCnt maxCnt composition rnd =
     (let mn = (if run = 0 then 0 else if run = 1 then 2 else 4);
          mx = (if run = 0 then 2 else if run = 1 then 4 else 9);
          draw = nextUInt R (word_of_int (mx - mn)) rnd;
          which = mn + sint (fst draw)
      in if which < 0 \<or> 10 \<le> which then None
         else
           (let comp = componentOrder ! nat which;
                maxPart = map_index elementProb comp;
                fdraw = nextFloat R (snd draw);
                variationPart = maxPart * 0.6 + fst fdraw * maxPart * 0.4;
                partToAdd = min variationPart (1 - part);
                composition' =
                  (if map_count composition comp \<noteq> 0
                   then AList.update comp partToAdd composition
                   else AList.update comp (map_index composition comp + partToAdd) composition)
            in createComposition_loop R (part + partToAdd) (run + 1) mn mx composition' (snd fdraw)))"
proof -
  consider "run = 0" | "run = 1" | "1 < run" using assms(2) by linarith
  then show ?thesis
  proof cases
    case 1
    with assms(1) show ?thesis
      by (subst createComposition_loop.simps) (simp add: Let_def)
  next
    case 2
    with assms(1) show ?thesis
      by (subst createComposition_loop.simps) (simp add: Let_def)
  next
    case 3
    with assms(1) show ?thesis
      by (subst createComposition_loop.simps) (simp add: Let_def elementProb_def)
  qed
qed

lemma createComposition_loop_total:
  assumes c: "pcg32_contract R"
  shows "0 \<le> run \<Longrightarrow> \<exists>res. createComposition_loop R part run minCnt maxCnt composition rnd = Some res"
proof (induction "nat \<lceil>(1 - part) * 20000\<rceil>" arbitrary: part run minCnt maxCnt composition rnd
       rule: less_induct)
  case less
  show ?case
  proof (cases "part < 1")
    case False
    then show ?thesis by (subst createComposition_loop.simps) simp
  next
    case True
    define mn where "mn = (if run = 0 then 0 else if run = 1 then 2 else (4::int))"
    define mx where "mx = (if run = 0 then 2 else if run = 1 then 4 else (9::int))"
    define draw where "draw = nextUInt R (word_of_int (mx - mn)) rnd"
    define which where "which = mn + sint (fst draw)"
    define fdraw where "fdraw = nextFloat R (snd draw)"
    define maxPart where "maxPart = map_index elementProb (componentOrder ! nat which)"
    define partToAdd where
      "partToAdd = min (maxPart * 0.6 + fst fdraw * maxPart * 0.4) (1 - part)"
    have w: "0 \<le> which \<and> which < 9"
      using which_in_range [OF c less.prems, of rnd]
      by (simp add: which_def draw_def mn_def mx_def)
    have f: "0 \<le> fst fdraw" using c by (simp add: pcg32_contract_def fdraw_def)
    have mp: "1 / 10000 \<le> maxPart" unfolding maxPart_def
      by (rule maxPart_range) (use w in auto)
    have "0 \<le> fst fdraw * maxPart * 0.4" using f mp by simp
    then have vp: "1 / 20000 \<le> maxPart * 0.6 + fst fdraw * maxPart * 0.4"
      using mp by linarith
    have dec: "nat \<lceil>(1 - (part + partToAdd)) * 20000\<rceil> < nat \<lceil>(1 - part) * 20000\<rceil>"
    proof (cases "maxPart * 0.6 + fst fdraw * maxPart * 0.4 \<le> 1 - part")
      case True
      then have "partToAdd = maxPart * 0.6 + fst fdraw * maxPart * 0.4"
        by (simp add: partToAdd_def)
      with vp have "(1 - (part + partToAdd)) * 20000 \<le> (1 - part) * 20000 - 1" by simp
      then have "\<lceil>(1 - (part + partToAdd)) * 20000\<rceil> \<le> \<lceil>(1 - part) * 20000\<rceil> - 1"
        by (metis ceiling_diff_one ceiling_mono)
      moreover have "0 < \<lceil>(1 - part) * 20000\<rceil>" using \<open>part < 1\<close> by simp
      ultimately show ?thesis by linarith
    next
      case False
      then have "partToAdd = 1 - part" by (simp add: partToAdd_def)
      then have "nat \<lceil>(1 - (part + partToAdd)) * 20000\<rceil> = 0" by simp
      moreover have "0 < \<lceil>(1 - part) * 20000\<rceil>" using \<open>part < 1\<close> by simp
      ultimately show ?thesis by linarith
    qed
    have run': "0 \<le> run + 1" using less.prems by simp
    show ?thesis
      using less.hyps [OF dec run'] w
      by (subst createComposition_loop_unfold [OF True less.prems])
         (simp add: Let_def which_def draw_def mn_def mx_def fdraw_def maxPart_def
            partToAdd_def)
  qed
qed

lemma createComposition_total:
  "pcg32_contract R \<Longrightarrow> \<exists>res. createComposition R composition rnd = Some res"
  unfolding createComposition_def by (rule createComposition_loop_total) simp_all

text \<open>A run of the loop in which argon is drawn twice.\<close>

lemma composition_overwritten:
  "createComposition (replay book) []
     [8, 4194304, 3, 4194304, 6, 4194304, 6, 4194304, 5, 4194304] =
     Some [(''CO2'', 0.772), (''O2'', 0.168), (''Ar'', 0.0128), (''He'', 0.0344)]"
  by (simp add: createComposition_def createComposition_loop.simps replay_draws Let_def
        elementProb_def componentOrder_def map_index_def map_count_def)

subsection \<open>createAtmosphere\<close>

lemma createAtmosphere_total:
  assumes "pcg32_contract R" "0 \<le> typeIndex" "typeIndex < 18"
  shows "\<exists>atm r. createAtmosphere R typeIndex planetRadius rnd = Some (atm, r)"
proof -
  obtain res where "createComposition R []
      (snd (nextFloat R (snd (if getPeriodicTypeColumn typeIndex \<le> 3
                         then (let d = nextFloat R (snd (nextFloat R rnd))
                               in (planetRadius * (1.01 + fst d * 0.09), snd d))
                         else (planetRadius, snd (nextFloat R rnd)))))) = Some res"
    using createComposition_total [OF assms(1)] by blast
  then show ?thesis using assms(2,3)
    by (simp add: createAtmosphere_def Let_def)
qed

lemma createAtmosphere_radius:
  assumes "createAtmosphere R typeIndex planetRadius rnd = Some (atm, r)"
  shows "a_radius atm =
     (if fst (nextFloat R rnd) > atmosphereProbabilityMax ! nat typeIndex then 0
      else if getPeriodicTypeColumn typeIndex \<le> 3
      then planetRadius * (1.01 + fst (nextFloat R (snd (nextFloat R rnd))) * 0.09)
      else planetRadius)"
  using assms
  by (auto simp: createAtmosphere_def Let_def UniverseAtmosphere_new_def
           split: if_splits option.splits)

lemma atmosphereProbabilityMax_column:
  assumes "0 \<le> typeIndex" "typeIndex < 18"
  shows "4 \<le> getPeriodicTypeColumn typeIndex \<Longrightarrow> atmosphereProbabilityMax ! nat typeIndex = 1"
    and "getPeriodicTypeColumn typeIndex = 0 \<Longrightarrow> atmosphereProbabilityMax ! nat typeIndex = 0"
proof -
  from assms have "typeIndex = 0 \<or> typeIndex = 1 \<or> typeIndex = 2 \<or> typeIndex = 3
      \<or> typeIndex = 4 \<or> typeIndex = 5 \<or> typeIndex = 6 \<or> typeIndex = 7 \<or> typeIndex = 8
      \<or> typeIndex = 9 \<or> typeIndex = 10 \<or> typeIndex = 11 \<or> typeIndex = 12
      \<or> typeIndex = 13 \<or> typeIndex = 14 \<or> typeIndex = 15 \<or> typeIndex = 16
      \<or> typeIndex = 17"
    by arith
  then show "4 \<le> getPeriodicTypeColumn typeIndex \<Longrightarrow> atmosphereProbabilityMax ! nat typeIndex = 1"
    and "getPeriodicTypeColumn typeIndex = 0 \<Longrightarrow> atmosphereProbabilityMax ! nat typeIndex = 0"
    by (auto simp: getPeriodicTypeColumn_def atmosphereProbabilityMax_def)
qed

subsection \<open>Habitability\<close>

text \<open>
  What the loop of \<^verbatim>\<open>atmosphereHabitability\<close> computes: on a map with at least one
  entry the result is 1 when oxygen is a key, its partial pressure is at least 0.16 and
  no gas exceeds its maximum, and 0 otherwise; on the empty map it is 1.
\<close>

lemma atmosphereHabitability_loop_zero:
  "atmosphereHabitability_loop composition todo pressure 0 = 0"
  by (induction todo) (auto simp: Let_def)

lemma atmosphereHabitability_loop_value:
  "atmosphereHabitability_loop composition todo pressure 1 =
     (if todo = [] \<or>
         (map_count composition ''O2'' \<noteq> 0 \<and>
          (\<forall>(gas, val) \<in> set todo.
             \<not> val * pressure > map_index ppMaxGas gas \<and>
             \<not> (gas = ''O2'' \<and> val * pressure < 0.16)))
      then 1 else 0)"
proof (induction todo)
  case Nil
  then show ?case by simp
next
  case (Cons e todo)
  obtain gas val where e: "e = (gas, val)" by (cases e)
  show ?case
    using Cons.IH
    by (auto simp: e Let_def atmosphereHabitability_loop_zero)
qed

lemma atmosphereHabitability_value:
  "atmosphereHabitability composition pressure =
     (if composition = [] \<or>
         (map_count composition ''O2'' \<noteq> 0 \<and>
          (\<forall>(gas, val) \<in> set composition.
             \<not> val * pressure > map_index ppMaxGas gas \<and>
             \<not> (gas = ''O2'' \<and> val * pressure < 0.16)))
      then 1 else 0)"
  by (simp only: atmosphereHabitability_def atmosphereHabitability_loop_value)

lemma calcPlanetHabitability_atmosphere:
  "calcPlanetHabitability (planet\<lparr>atmosphere := a\<rparr>) =
     (calcPlanetHabitability planet)\<lparr>atmosphere := a\<rparr>"
  by (simp add: calcPlanetHabitability_def Let_def)

lemma calcPlanetHabitability_keeps:
  "isInHz (calcPlanetHabitability planet) = isInHz planet"
  "atmosphere (calcPlanetHabitability planet) = atmosphere planet"
  by (simp_all add: calcPlanetHabitability_def Let_def)

lemma getPlanetHabitability_unfold:
  "getPlanetHabitability planet =
     (if \<not> isInHz planet then (0, calcPlanetHabitability planet)
      else if exists_atm (atmosphere planet)
      then (probTemp (calcPlanetHabitability planet) * probGrav (calcPlanetHabitability planet)
              * atmosphereHabitability (a_composition (atmosphere planet)) 1,
            calcPlanetHabitability planet)
      else (probTemp (calcPlanetHabitability planet) * probGrav (calcPlanetHabitability planet),
            calcPlanetHabitability planet))"
  by (simp add: getPlanetHabitability_def Let_def calcPlanetHabitability_keeps)

section \<open>Planets and stars\<close>

text \<open>
  The planet type index lies in the table, so \<^verbatim>\<open>genPlanet\<close> returns under the
  contract; a planet it returns carries the distance, the mass and the band limit of
  the source's assignments.
\<close>

lemma fold_mass_index:
  "fold (\<lambda>i acc. if P i then int i else acc) xs a \<in> insert a (int ` set xs)"
  by (induction xs arbitrary: a) auto

lemma getPlanetTypeIndex_range:
  "0 \<le> getPlanetTypeIndex planet hzMinAu hzMaxAu \<and> getPlanetTypeIndex planet hzMinAu hzMaxAu \<le> 17"
proof -
  let ?m = "fold (\<lambda>i iMassIdx.
                       if p_mass planet / Mearth > Mearth_min ! i \<and>
                          p_mass planet / Mearth < Mearth_max ! i
                       then int i else iMassIdx) [0..<6] 0"
  have "?m \<in> insert 0 (int ` set [0..<6])" by (rule fold_mass_index)
  then have "0 \<le> ?m \<and> ?m \<le> 5" by auto
  then show ?thesis by (simp add: getPlanetTypeIndex_def Let_def)
qed

lemma createAtmosphere_typed:
  assumes "pcg32_contract R"
  shows "createAtmosphere R (getPlanetTypeIndex p a b) radius rnd \<noteq> None"
  using createAtmosphere_total [OF assms, of "getPlanetTypeIndex p a b" radius rnd]
    getPlanetTypeIndex_range [of p a b]
  by force

lemma genPlanet_total:
  assumes "pcg32_contract R"
  shows "genPlanet R planetSeed star d lower g \<noteq> None"
  by (simp add: genPlanet_def Let_def createAtmosphere_typed [OF assms] split: option.split)

lemma genPlanet_Some:
  assumes "genPlanet R planetSeed star d lower g = Some (planet, lower', g')"
  shows "lower' = d + d - lower"
    and "starDistance planet = d"
    and "p_mass planet = getStarMassDensity (s_mass star) (frostLimitAu star) d * (lower' - lower)"
    and "p_seed planet = planetSeed"
    and "0 \<le> p_typeIndex planet \<and> p_typeIndex planet \<le> 17"
    and "\<exists>r. g' = g\<lparr>rng := r\<rparr>"
  using assms getPlanetTypeIndex_range
  by (auto simp: genPlanet_def Let_def split: option.splits)

text \<open>The habitable zone and the fields of a generated star.\<close>

lemma sEff_nonneg: "0 \<le> sEff i tStar"
  by (simp add: sEff_def)

lemma habitableZoneComplete_length: "length (habitableZoneComplete tEff lumStar) = 8"
  by (simp add: habitableZoneComplete_def Let_def)

lemma habitableZoneComplete_nonneg:
  assumes "0 \<le> lumStar" "i < 8"
  shows "0 \<le> habitableZoneComplete tEff lumStar ! i"
proof (cases i)
  case 0
  then show ?thesis by (simp add: habitableZoneComplete_def Let_def)
next
  case (Suc j)
  with assms(2) have j: "j < 7" by simp
  have "0 \<le> lumStar / sEff (Suc j) (tEff - 5780)"
    using assms(1) sEff_nonneg by simp
  then show ?thesis using Suc j
    by (simp add: habitableZoneComplete_def Let_def del: upt_Suc)
qed

lemma habitableZoneComplete_0: "habitableZoneComplete tEff lumStar ! 0 = 0"
  by (simp add: habitableZoneComplete_def Let_def)

lemma calcLuminosity_nonneg: "0 \<le> mass \<Longrightarrow> 0 \<le> calcLuminosity mass"
  by (simp add: calcLuminosity_def Let_def)

lemma star_mass_table:
  "list_all (\<lambda>(lo, hi). 0 < lo \<and> lo \<le> hi) (zip minMass maxMass)"
  by (simp add: minMass_def maxMass_def)

lemma star_mass_range:
  assumes "0 \<le> idx" "idx \<le> 23"
  shows "0 < minMass ! nat idx \<and> minMass ! nat idx \<le> maxMass ! nat idx"
proof -
  have len: "length (zip minMass maxMass) = 24" by (simp add: minMass_def maxMass_def)
  from assms have "nat idx < length (zip minMass maxMass)" using len by simp
  with star_mass_table have "case_prod (\<lambda>lo hi. 0 < lo \<and> lo \<le> hi) (zip minMass maxMass ! nat idx)"
    by (simp add: list_all_length)
  moreover have "nat idx < length minMass" "nat idx < length maxMass" 
    using assms by (simp_all add: minMass_def maxMass_def)
  ultimately show ?thesis by simp
qed

lemma genStar_mass_pos:
  assumes "pcg32_contract R"
  shows "0 < s_mass (fst (genStar R starSeed g))"
proof -
  define d0 where "d0 = nextFloat R (rng_seed R starSeed)"
  define idx where "idx = getRndCdfIdx (fst d0) starTypeProbability"
  define u where "u = fst (nextFloat R (snd d0))"
  have idx: "0 \<le> idx \<and> idx \<le> 23" unfolding idx_def by (rule starTypeIndex_range)
  have u: "0 \<le> u" using assms by (simp add: u_def pcg32_contract_def)
  have m: "0 < minMass ! nat idx \<and> minMass ! nat idx \<le> maxMass ! nat idx"
    using idx by (intro star_mass_range) auto
  then have "0 \<le> u * (maxMass ! nat idx - minMass ! nat idx)" using u by simp
  with m have "0 < minMass ! nat idx + u * (maxMass ! nat idx - minMass ! nat idx)" by linarith
  then show ?thesis
    by (simp add: genStar_def Let_def UniverseStar_new_def d0_def idx_def u_def)
qed

lemma genStar_fields:
  "s_typeIndex (fst (genStar R starSeed g)) =
     word_of_int (getRndCdfIdx (fst (nextFloat R (rng_seed R starSeed))) starTypeProbability)"
  "hzDistAu (fst (genStar R starSeed g)) =
     habitableZoneComplete (s_temperature (fst (genStar R starSeed g)))
       (luminosity (fst (genStar R starSeed g)))"
  "luminosity (fst (genStar R starSeed g)) = calcLuminosity (s_mass (fst (genStar R starSeed g)))"
  "frostLimitAu (fst (genStar R starSeed g)) = calcFrostLimit (luminosity (fst (genStar R starSeed g)))"
  "s_seed (fst (genStar R starSeed g)) = starSeed"
  "planets (fst (genStar R starSeed g)) = Map.empty"
  by (simp_all add: genStar_def Let_def UniverseStar_new_def)

lemma genStar_typeIndex_le:
  "s_typeIndex (fst (genStar R starSeed g)) \<le> 23"
proof -
  define idx where "idx = getRndCdfIdx (fst (nextFloat R (rng_seed R starSeed))) starTypeProbability"
  have idx: "0 \<le> idx \<and> idx \<le> 23" unfolding idx_def by (rule starTypeIndex_range)
  then have "uint (word_of_int idx :: uint) = idx"
    by (simp add: uint_word_of_int take_bit_int_eq_self)
  then have "(word_of_int idx :: uint) \<le> 23" using idx by (simp add: word_le_def)
  then show ?thesis by (simp add: genStar_fields idx_def)
qed

lemma genStar_planetsCount:
  "planetsCount (fst (genStar R starSeed g)) =
     fst (nextUInt R 8 (snd (nextFloat R (snd (nextFloat R (snd (nextFloat R
            (snd (nextFloat R (rng_seed R starSeed))))))))))"
  by (simp add: genStar_def Let_def UniverseStar_new_def)

lemma genStar_planetsCount_le:
  assumes "pcg32_contract R"
  shows "planetsCount (fst (genStar R starSeed g)) \<le> 7"
proof -
  have "fst (nextUInt R 8 r) < 8" for r
    using assms by (simp add: pcg32_contract_def)
  then have "fst (nextUInt R 8 r) \<le> 7" for r
    using word_less_def [of "fst (nextUInt R 8 r)" 8] word_le_def [of "fst (nextUInt R 8 r)" 7]
    by simp
  then show ?thesis by (simp only: genStar_planetsCount)
qed

section \<open>What the generation functions read of the galaxy\<close>

text \<open>
  \<^verbatim>\<open>genStar\<close> and \<^verbatim>\<open>genPlanet\<close> reseed the member generator first: their results are
  the same from any galaxy, and of the galaxy they change the generator only. The
  placement draw reads the generator and nothing else. None of them reads the planet
  map of the star.
\<close>

lemma genStar_frame:
  "genStar R starSeed g = (fst (genStar R starSeed h), g\<lparr>rng := rng (snd (genStar R starSeed h))\<rparr>)"
  by (simp add: genStar_def Let_def)

lemma genStar_same: "fst (genStar R starSeed g1) = fst (genStar R starSeed g2)"
  using genStar_frame [of R starSeed g1 g2] by simp

lemma genStar_MAX_PLANETS:
  "genStar R starSeed (g\<lparr>MAX_PLANETS := m\<rparr>) =
     (fst (genStar R starSeed g), (snd (genStar R starSeed g))\<lparr>MAX_PLANETS := m\<rparr>)"
  by (simp add: genStar_def Let_def)

lemma planetDistance_frame:
  assumes "rng g = rng h"
  shows "planetDistance R star lower d g =
           (fst (planetDistance R star lower d h), g\<lparr>rng := rng (snd (planetDistance R star lower d h))\<rparr>)"
  using assms by (simp add: planetDistance_def Let_def)

lemma planetDistance_rng:
  "snd (planetDistance R star lower d g) = g\<lparr>rng := snd (nextFloat R (rng g))\<rparr>"
  by (simp add: planetDistance_def Let_def)

lemma planetDistance_planets:
  "planetDistance R (star\<lparr>planets := m\<rparr>) lower d g = planetDistance R star lower d g"
  by (simp add: planetDistance_def Let_def)

lemma genPlanet_frame:
  "genPlanet R planetSeed star d lower g =
     map_option (\<lambda>(planet, lower', h'). (planet, lower', g\<lparr>rng := rng h'\<rparr>))
       (genPlanet R planetSeed star d lower h)"
  by (simp add: genPlanet_def Let_def split: option.split)

lemma genPlanet_same:
  "map_option (\<lambda>(planet, lower', g'). (planet, lower')) (genPlanet R planetSeed star d lower g1)
   = map_option (\<lambda>(planet, lower', g'). (planet, lower')) (genPlanet R planetSeed star d lower g2)"
  by (cases "genPlanet R planetSeed star d lower g2")
     (auto simp: genPlanet_frame [of R planetSeed star d lower g1 g2])

lemma genPlanet_planets:
  "genPlanet R planetSeed (star\<lparr>planets := m\<rparr>) d lower g = genPlanet R planetSeed star d lower g"
  by (simp add: genPlanet_def Let_def)

text \<open>
  Two runs of the loop of \<^verbatim>\<open>genPlanets\<close> from galaxies in a relation \<open>Q\<close> that fixes
  the generator and is kept by reseeding and by storing a planet: both fail or both
  return, with the same bands and related galaxies.
\<close>

lemma genPlanets_loop_rel:
  assumes a: "\<And>g h. Q g h \<Longrightarrow> rng g = rng h"
    and b: "\<And>g h r. Q g h \<Longrightarrow> Q (g\<lparr>rng := r\<rparr>) (h\<lparr>rng := r\<rparr>)"
    and c: "\<And>g h ps p. Q g h \<Longrightarrow> Q (put_planet systemSeed starSeed ps p g) (put_planet systemSeed starSeed ps p h)"
  shows "Q g h \<Longrightarrow>
     (case genPlanets_loop R systemSeed starSeed star seeds i k lower d g of
        None \<Rightarrow> genPlanets_loop R systemSeed starSeed star seeds i k lower d h = None
      | Some (g', bands) \<Rightarrow>
          (\<exists>h'. genPlanets_loop R systemSeed starSeed star seeds i k lower d h = Some (h', bands)
                \<and> Q g' h'))"
proof (induction k arbitrary: i lower d g h)
  case 0
  then show ?case by simp
next
  case (Suc k)
  show ?case
  proof (cases "length seeds \<le> i")
    case True
    then show ?thesis by simp
  next
    case False
    define pdh where "pdh = planetDistance R star lower d h"
    have rg: "rng g = rng h" using Suc.prems by (rule a)
    have pdg: "planetDistance R star lower d g = (fst pdh, g\<lparr>rng := rng (snd pdh)\<rparr>)"
      unfolding pdh_def using rg by (rule planetDistance_frame)
    have pdh': "snd pdh = h\<lparr>rng := rng (snd pdh)\<rparr>"
      unfolding pdh_def by (simp add: planetDistance_def Let_def)
    show ?thesis
    proof (cases "genPlanet R (seeds ! i) star (fst pdh) lower (snd pdh)")
      case None
      then have "genPlanet R (seeds ! i) star (fst pdh) lower (g\<lparr>rng := rng (snd pdh)\<rparr>) = None"
        by (subst genPlanet_frame [where h = "snd pdh"]) simp
      with None False show ?thesis by (simp add: pdg pdh_def [symmetric])
    next
      case (Some res)
      obtain planet lower' h2 where res: "res = (planet, lower', h2)" by (cases res)
      have h2: "h2 = (snd pdh)\<lparr>rng := rng h2\<rparr>"
        using Some res genPlanet_frame [of R "seeds ! i" star "fst pdh" lower "snd pdh" "snd pdh"]
        by auto
      have gg: "genPlanet R (seeds ! i) star (fst pdh) lower (g\<lparr>rng := rng (snd pdh)\<rparr>)
                  = Some (planet, lower', g\<lparr>rng := rng h2\<rparr>)"
        using Some res by (subst genPlanet_frame [where h = "snd pdh"]) simp
      have "Q (g\<lparr>rng := rng h2\<rparr>) (h\<lparr>rng := rng h2\<rparr>)" using Suc.prems by (rule b)
      moreover have "h2 = h\<lparr>rng := rng h2\<rparr>" using h2 pdh' by (metis ProcUGalaxy.update_convs(8) ProcUGalaxy.surjective)
      ultimately have "Q (g\<lparr>rng := rng h2\<rparr>) h2" by simp
      then have q: "Q (put_planet systemSeed starSeed (seeds ! i) planet (g\<lparr>rng := rng h2\<rparr>))
                      (put_planet systemSeed starSeed (seeds ! i) planet h2)" by (rule c)
      from Suc.IH [OF q, of "i + 1" lower' "fst pdh"] show ?thesis
        using False Some res gg
        by (auto simp: pdg pdh_def [symmetric] split: option.splits)
    qed
  qed
qed

lemma genPlanets_loop_star_planets:
  "genPlanets_loop R systemSeed starSeed (star\<lparr>planets := m\<rparr>) seeds i k lower d g
     = genPlanets_loop R systemSeed starSeed star seeds i k lower d g"
  by (induction k arbitrary: i lower d g)
     (simp_all add: Let_def genPlanet_planets planetDistance_planets cong: option.case_cong prod.case_cong)

section \<open>The loop of genPlanets\<close>

subsection \<open>Updates of the catalogue\<close>

lemma system_at_rng [simp]: "system_at (g\<lparr>rng := r\<rparr>) k = system_at g k"
  by (simp add: system_at_def)

lemma rng_put_planet [simp]: "rng (put_planet systemSeed starSeed ps p g) = rng g"
  by (simp add: put_planet_def put_star_def Let_def)

lemma star_at_put_planet:
  "star_at (system_at (put_planet systemSeed starSeed ps p g) systemSeed) starSeed =
     (star_at (system_at g systemSeed) starSeed)
       \<lparr>planets := (planets (star_at (system_at g systemSeed) starSeed))(ps \<mapsto> p)\<rparr>"
  by (simp add: put_planet_def put_star_def Let_def system_at_def star_at_def)

lemma stars_put_planet:
  "stars (system_at (put_planet systemSeed starSeed ps p g) systemSeed) starSeed =
     Some ((star_at (system_at g systemSeed) starSeed)
       \<lparr>planets := (planets (star_at (system_at g systemSeed) starSeed))(ps \<mapsto> p)\<rparr>)"
  by (simp add: put_planet_def put_star_def Let_def system_at_def)

lemma put_planet_MAX_PLANETS:
  "put_planet systemSeed starSeed ps p (g\<lparr>MAX_PLANETS := m\<rparr>) =
     (put_planet systemSeed starSeed ps p g)\<lparr>MAX_PLANETS := m\<rparr>"
  by (simp add: put_planet_def put_star_def Let_def system_at_def)

subsection \<open>The bands\<close>

text \<open>
  From a lower limit and a previous distance that are not negative, the placement
  gives a distance that is at least the lower limit. So the loop returns with one band
  per iteration, each band starts where the one before ended, and every planet lies
  inside its band.
\<close>

lemma planetDistance_ge:
  assumes c: "pcg32_contract R" and l: "0 \<le> lower" and d: "0 \<le> d"
  shows "lower \<le> fst (planetDistance R star lower d g)"
proof -
  define u where "u = fst (nextFloat R (rng g))"
  have u: "0 \<le> u" using c by (simp add: u_def pcg32_contract_def)
  show ?thesis
  proof (cases "lower < frostLimitAu star")
    case True
    then have "0 \<le> u * (frostLimitAu star - lower)" using u by simp
    then show ?thesis using True by (simp add: planetDistance_def Let_def u_def [symmetric])
  next
    case False
    have "0 \<le> d * (1.5 + u)" using d u by simp
    then show ?thesis using False l
      by (simp add: planetDistance_def Let_def u_def [symmetric])
  qed
qed

lemma genPlanets_loop_bands:
  assumes c: "pcg32_contract R"
  shows "0 \<le> lower \<Longrightarrow> 0 \<le> d \<Longrightarrow> i + k \<le> length seeds \<Longrightarrow>
    \<exists>g' bands. genPlanets_loop R systemSeed starSeed star seeds i k lower d g = Some (g', bands)
      \<and> length bands = k
      \<and> (bands \<noteq> [] \<longrightarrow> fst (hd bands) = lower)
      \<and> (\<forall>j. Suc j < length bands \<longrightarrow> fst (bands ! Suc j) = snd (snd (bands ! j)))
      \<and> (\<forall>(lo, p, up) \<in> set bands.
            up = 2 * starDistance p - lo
          \<and> p_mass p = getStarMassDensity (s_mass star) (frostLimitAu star) (starDistance p) * (up - lo)
          \<and> 0 \<le> lo \<and> lo \<le> starDistance p \<and> starDistance p \<le> up)"
proof (induction k arbitrary: i lower d g)
  case 0
  then show ?case by simp
next
  case (Suc k)
  define pd where "pd = planetDistance R star lower d g"
  have i: "\<not> length seeds \<le> i" using Suc.prems by simp
  have ge: "lower \<le> fst pd" unfolding pd_def using c Suc.prems(1,2) by (rule planetDistance_ge)
  obtain res where res: "genPlanet R (seeds ! i) star (fst pd) lower (snd pd) = Some res"
    using genPlanet_total [OF c, of "seeds ! i" star "fst pd" lower "snd pd"] by auto
  obtain planet lower' g2 where r: "res = (planet, lower', g2)" by (cases res)
  note gp = genPlanet_Some [OF res [unfolded r]]
  have l': "lower' = 2 * fst pd - lower" using gp(1) by simp
  have "0 \<le> lower'" "0 \<le> fst pd" "i + 1 + k \<le> length seeds"
    using l' ge Suc.prems by simp_all
  from Suc.IH [OF this, of "put_planet systemSeed starSeed (seeds ! i) planet g2"]
  obtain g3 bands where
    rec: "genPlanets_loop R systemSeed starSeed star seeds (i + 1) k lower' (fst pd)
            (put_planet systemSeed starSeed (seeds ! i) planet g2) = Some (g3, bands)"
    and len: "length bands = k"
    and hd: "bands \<noteq> [] \<longrightarrow> fst (hd bands) = lower'"
    and chain: "\<forall>j. Suc j < length bands \<longrightarrow> fst (bands ! Suc j) = snd (snd (bands ! j))"
    and each: "\<forall>(lo, p, up) \<in> set bands.
            up = 2 * starDistance p - lo
          \<and> p_mass p = getStarMassDensity (s_mass star) (frostLimitAu star) (starDistance p) * (up - lo)
          \<and> 0 \<le> lo \<and> lo \<le> starDistance p \<and> starDistance p \<le> up"
    by blast
  have run: "genPlanets_loop R systemSeed starSeed star seeds i (Suc k) lower d g
               = Some (g3, (lower, planet, lower') # bands)"
    using i res r rec by (simp add: pd_def [symmetric])
  have chain': "\<forall>j. Suc j < length ((lower, planet, lower') # bands) \<longrightarrow>
      fst (((lower, planet, lower') # bands) ! Suc j) = snd (snd (((lower, planet, lower') # bands) ! j))"
  proof (intro allI impI)
    fix j assume j: "Suc j < length ((lower, planet, lower') # bands)"
    show "fst (((lower, planet, lower') # bands) ! Suc j) = snd (snd (((lower, planet, lower') # bands) ! j))"
    proof (cases j)
      case 0
      with j have "bands \<noteq> []" by auto
      with hd have "fst (hd bands) = lower'" by simp
      with \<open>bands \<noteq> []\<close> 0 show ?thesis by (simp add: hd_conv_nth)
    next
      case (Suc j')
      with j chain show ?thesis by simp
    qed
  qed
  have first: "up = 2 * starDistance p - lo
          \<and> p_mass p = getStarMassDensity (s_mass star) (frostLimitAu star) (starDistance p) * (up - lo)
          \<and> 0 \<le> lo \<and> lo \<le> starDistance p \<and> starDistance p \<le> up"
    if "(lo, p, up) = (lower, planet, lower')" for lo p up
    using that gp(2,3) l' ge Suc.prems(1) by auto
  show ?case
    using run len chain' each first by (intro exI [of _ g3] exI [of _ "(lower, planet, lower') # bands"]) auto
qed

subsection \<open>The planets stored\<close>

text \<open>
  The planet seeds of a star are distinct; the loop stores the planet of iteration
  \<open>j\<close> under the seed of index \<open>j\<close> and touches no other key and no other member of
  the star.
\<close>

lemma genPlanets_loop_dom:
  "genPlanets_loop R systemSeed starSeed star seeds i k lower d g = Some (g', bands) \<Longrightarrow>
     dom (planets (star_at (system_at g' systemSeed) starSeed)) =
       dom (planets (star_at (system_at g systemSeed) starSeed)) \<union> set (take k (drop i seeds))"
proof (induction k arbitrary: i lower d g bands)
  case 0
  then show ?case by simp
next
  case (Suc k)
  define pd where "pd = planetDistance R star lower d g"
  from Suc.prems have i: "i < length seeds" by (auto split: if_splits)
  from Suc.prems i obtain planet lower' g2 where
    gp: "genPlanet R (seeds ! i) star (fst pd) lower (snd pd) = Some (planet, lower', g2)"
    by (auto simp: pd_def [symmetric] split: option.splits)
  from Suc.prems i gp obtain bands' where
    rec: "genPlanets_loop R systemSeed starSeed star seeds (i + 1) k lower' (fst pd)
            (put_planet systemSeed starSeed (seeds ! i) planet g2) = Some (g', bands')"
    by (auto simp: pd_def [symmetric] split: option.splits)
  obtain r where g2: "g2 = (snd pd)\<lparr>rng := r\<rparr>" using genPlanet_Some(6) [OF gp] by blast
  have s2: "system_at g2 systemSeed = system_at g systemSeed"
    by (simp add: g2 pd_def planetDistance_rng)
  have "take (Suc k) (drop i seeds) = seeds ! i # take k (drop (i + 1) seeds)"
    using i by (simp add: Cons_nth_drop_Suc [symmetric])
  then show ?case
    using Suc.IH [OF rec] by (auto simp: star_at_put_planet s2)
qed

lemma seed_offsets_differ:
  fixes a :: int
  assumes "m < 256" "n < 256" "(word_of_int (a + int m * 10 ^ 4 + int m) :: uint64_t) = word_of_int (a + int n * 10 ^ 4 + int n)"
  shows "m = n"
proof -
  from assms(3) have "take_bit 64 (a + int m * 10 ^ 4 + int m) = take_bit 64 (a + int n * 10 ^ 4 + int n)"
    by (simp only: word_of_int_eq_iff) simp
  then have "(a + int m * 10 ^ 4 + int m) mod 2 ^ 64 = (a + int n * 10 ^ 4 + int n) mod 2 ^ 64"
    by (simp add: take_bit_eq_mod)
  then have "(2::int) ^ 64 dvd (a + int m * 10 ^ 4 + int m) - (a + int n * 10 ^ 4 + int n)"
    by (simp add: mod_eq_dvd_iff)
  then have d: "(2::int) ^ 64 dvd 10001 * (int m - int n)"
    by (simp add: algebra_simps)
  have "\<bar>10001 * (int m - int n)\<bar> < 2 ^ 64" using assms(1,2) by simp
  with d have "10001 * (int m - int n) = 0"
    using zdvd_imp_le [of "2 ^ 64" "\<bar>10001 * (int m - int n)\<bar>"] by fastforce
  then show ?thesis by simp
qed

lemma getPlanetSeeds_distinct: "distinct (getPlanetSeeds uStarSeed howMany)"
proof -
  have "inj_on (\<lambda>n. word_of_int (sint uStarSeed + 5432 + int n * 10 ^ 4 + int n) :: uint64_t)
          (set [0..<unat howMany])"
  proof (rule inj_onI)
    fix m n
    assume m: "m \<in> set [0..<unat howMany]" and n: "n \<in> set [0..<unat howMany]"
      and e: "(word_of_int (sint uStarSeed + 5432 + int m * 10 ^ 4 + int m) :: uint64_t)
               = word_of_int (sint uStarSeed + 5432 + int n * 10 ^ 4 + int n)"
    have "unat howMany < 256" using unsigned_less [of howMany] by simp
    with m n have "m < 256" "n < 256" by simp_all
    then show "m = n" using e by (rule seed_offsets_differ)
  qed
  then show ?thesis by (simp add: getPlanetSeeds_def distinct_map)
qed

lemma genPlanets_loop_planets:
  assumes "distinct seeds"
  shows "genPlanets_loop R systemSeed starSeed star seeds i k lower d g = Some (g', bands) \<Longrightarrow>
     (\<forall>j<k. planets (star_at (system_at g' systemSeed) starSeed) (seeds ! (i + j))
               = Some (fst (snd (bands ! j))))
   \<and> (\<forall>key. key \<notin> set (take k (drop i seeds)) \<longrightarrow>
          planets (star_at (system_at g' systemSeed) starSeed) key
            = planets (star_at (system_at g systemSeed) starSeed) key)"
proof (induction k arbitrary: i lower d g bands)
  case 0
  then show ?case by simp
next
  case (Suc k)
  define pd where "pd = planetDistance R star lower d g"
  from Suc.prems have i: "i < length seeds" by (auto split: if_splits)
  from Suc.prems i obtain planet lower' g2 where
    gp: "genPlanet R (seeds ! i) star (fst pd) lower (snd pd) = Some (planet, lower', g2)"
    by (auto simp: pd_def [symmetric] split: option.splits)
  from Suc.prems i gp obtain bands' where
    rec: "genPlanets_loop R systemSeed starSeed star seeds (i + 1) k lower' (fst pd)
            (put_planet systemSeed starSeed (seeds ! i) planet g2) = Some (g', bands')"
    and b: "bands = (lower, planet, lower') # bands'"
    by (auto simp: pd_def [symmetric] split: option.splits)
  obtain r where g2: "g2 = (snd pd)\<lparr>rng := r\<rparr>" using genPlanet_Some(6) [OF gp] by blast
  have s2: "system_at g2 systemSeed = system_at g systemSeed"
    by (simp add: g2 pd_def planetDistance_rng)
  have tk: "take (Suc k) (drop i seeds) = seeds ! i # take k (drop (i + 1) seeds)"
    using i by (simp add: Cons_nth_drop_Suc [symmetric])
  have "distinct (take (Suc k) (drop i seeds))" using assms by simp
  then have notin: "seeds ! i \<notin> set (take k (drop (i + 1) seeds))" by (simp add: tk)
  note IH = Suc.IH [OF rec]
  have here: "planets (star_at (system_at g' systemSeed) starSeed) (seeds ! i) = Some planet"
    using IH notin by (simp add: star_at_put_planet s2)
  have later: "planets (star_at (system_at g' systemSeed) starSeed) (seeds ! (i + Suc j))
                 = Some (fst (snd (bands' ! j)))" if "j < k" for j
    using IH that by simp
  have first: "\<forall>j<Suc k. planets (star_at (system_at g' systemSeed) starSeed) (seeds ! (i + j))
               = Some (fst (snd (bands ! j)))"
  proof (intro allI impI)
    fix j assume "j < Suc k"
    then show "planets (star_at (system_at g' systemSeed) starSeed) (seeds ! (i + j))
               = Some (fst (snd (bands ! j)))"
      using here later by (cases j) (simp_all add: b)
  qed
  have other: "\<forall>key. key \<notin> set (take (Suc k) (drop i seeds)) \<longrightarrow>
          planets (star_at (system_at g' systemSeed) starSeed) key
            = planets (star_at (system_at g systemSeed) starSeed) key"
    using IH by (simp add: tk star_at_put_planet s2)
  show ?case using first other by blast
qed

lemma genPlanets_loop_star:
  "genPlanets_loop R systemSeed starSeed star seeds i k lower d g = Some (g', bands) \<Longrightarrow>
   stars (system_at g systemSeed) starSeed = Some s0 \<Longrightarrow>
   \<exists>P. stars (system_at g' systemSeed) starSeed = Some (s0\<lparr>planets := P\<rparr>)"
proof (induction k arbitrary: i lower d g bands s0)
  case 0
  then have "stars (system_at g' systemSeed) starSeed = Some (s0\<lparr>planets := planets s0\<rparr>)"
    by simp
  then show ?case by blast
next
  case (Suc k)
  define pd where "pd = planetDistance R star lower d g"
  from Suc.prems have i: "i < length seeds" by (auto split: if_splits)
  from Suc.prems i obtain planet lower' g2 where
    gp: "genPlanet R (seeds ! i) star (fst pd) lower (snd pd) = Some (planet, lower', g2)"
    by (auto simp: pd_def [symmetric] split: option.splits)
  from Suc.prems i gp obtain bands' where
    rec: "genPlanets_loop R systemSeed starSeed star seeds (i + 1) k lower' (fst pd)
            (put_planet systemSeed starSeed (seeds ! i) planet g2) = Some (g', bands')"
    by (auto simp: pd_def [symmetric] split: option.splits)
  obtain r where g2: "g2 = (snd pd)\<lparr>rng := r\<rparr>" using genPlanet_Some(6) [OF gp] by blast
  have s2: "system_at g2 systemSeed = system_at g systemSeed"
    by (simp add: g2 pd_def planetDistance_rng)
  have "stars (system_at (put_planet systemSeed starSeed (seeds ! i) planet g2) systemSeed) starSeed
          = Some (s0\<lparr>planets := (planets s0)(seeds ! i \<mapsto> planet)\<rparr>)"
    using Suc.prems(2) by (simp add: stars_put_planet s2 star_at_def)
  from Suc.IH [OF rec this] show ?case by simp
qed

subsection \<open>genPlanets as a whole\<close>

lemma genPlanets_log_Some:
  assumes "stars (system_at g systemSeed) starSeed = Some star"
  shows "genPlanets_log R systemSeed starSeed g =
           genPlanets_loop R systemSeed starSeed star
             (getPlanetSeeds starSeed (ucast (planetsCount star))) 0
             (nat (sint (planetsCount star))) 0 0 (g\<lparr>rng := rng_seed R starSeed\<rparr>)"
  using assms
  by (auto simp: genPlanets_log_def system_at_def UniverseSystem_new_def Let_def split: option.splits)

lemma genPlanets_log_None:
  assumes "stars (system_at g systemSeed) starSeed = None"
  shows "genPlanets_log R systemSeed starSeed g = None"
  using assms
  by (auto simp: genPlanets_log_def system_at_def split: option.splits)

lemma planet_count_small:
  fixes n :: uint
  assumes "n \<le> 255"
  shows "nat (sint n) = unat n" and "length (getPlanetSeeds s (ucast n)) = unat n"
proof -
  have u: "uint n \<le> 255" using assms by (simp only: word_le_def) simp
  then have u': "uint n < 256" by linarith
  have "sint n = uint n" using u' by (rule sint_small)
  then show "nat (sint n) = unat n" by (simp only: unat_eq_nat_uint)
  have e: "unat n = nat (uint n)" by (rule unat_eq_nat_uint)
  have "nat (uint n) < 256" using u' by linarith
  then have "unat n < 2 ^ 8" by (simp only: e) simp
  then have "take_bit 8 (unat n) = unat n" by (rule take_bit_nat_eq_self)
  then have "unat (ucast n :: 8 word) = unat n" by (simp only: unsigned_ucast_eq) simp
  then show "length (getPlanetSeeds s (ucast n)) = unat n" by (simp add: getPlanetSeeds_def)
qed

lemma genPlanets_log_total:
  assumes c: "pcg32_contract R"
    and s: "stars (system_at g systemSeed) starSeed = Some star"
    and n: "planetsCount star \<le> 255"
  shows "\<exists>g' bands. genPlanets_log R systemSeed starSeed g = Some (g', bands)
      \<and> length bands = unat (planetsCount star)
      \<and> (bands \<noteq> [] \<longrightarrow> fst (hd bands) = 0)
      \<and> (\<forall>j. Suc j < length bands \<longrightarrow> fst (bands ! Suc j) = snd (snd (bands ! j)))
      \<and> (\<forall>(lo, p, up) \<in> set bands.
            up = 2 * starDistance p - lo
          \<and> p_mass p = getStarMassDensity (s_mass star) (frostLimitAu star) (starDistance p) * (up - lo)
          \<and> 0 \<le> lo \<and> lo \<le> starDistance p \<and> starDistance p \<le> up)
      \<and> (\<forall>j<length bands.
            planets (star_at (system_at g' systemSeed) starSeed)
              (getPlanetSeeds starSeed (ucast (planetsCount star)) ! j) = Some (fst (snd (bands ! j))))
      \<and> dom (planets (star_at (system_at g' systemSeed) starSeed)) =
          dom (planets star) \<union> set (getPlanetSeeds starSeed (ucast (planetsCount star)))"
proof -
  note small = planet_count_small [OF n]
  have "0 + unat (planetsCount star) \<le> length (getPlanetSeeds starSeed (ucast (planetsCount star)))"
    by (simp add: small)
  from genPlanets_loop_bands [OF c order_refl order_refl this,
      of systemSeed starSeed star "g\<lparr>rng := rng_seed R starSeed\<rparr>"]
  obtain g' bands where
    run: "genPlanets_loop R systemSeed starSeed star
            (getPlanetSeeds starSeed (ucast (planetsCount star))) 0 (unat (planetsCount star)) 0 0
            (g\<lparr>rng := rng_seed R starSeed\<rparr>) = Some (g', bands)"
    and props: "length bands = unat (planetsCount star)"
      "bands \<noteq> [] \<longrightarrow> fst (hd bands) = 0"
      "\<forall>j. Suc j < length bands \<longrightarrow> fst (bands ! Suc j) = snd (snd (bands ! j))"
      "\<forall>(lo, p, up) \<in> set bands.
            up = 2 * starDistance p - lo
          \<and> p_mass p = getStarMassDensity (s_mass star) (frostLimitAu star) (starDistance p) * (up - lo)
          \<and> 0 \<le> lo \<and> lo \<le> starDistance p \<and> starDistance p \<le> up"
    by blast
  have st: "star_at (system_at g systemSeed) starSeed = star" using s by (simp add: star_at_def)
  have "dom (planets (star_at (system_at g' systemSeed) starSeed)) =
          dom (planets star) \<union> set (getPlanetSeeds starSeed (ucast (planetsCount star)))"
    using genPlanets_loop_dom [OF run] by (simp add: st small)
  moreover have "genPlanets_log R systemSeed starSeed g = Some (g', bands)"
    using run by (simp add: genPlanets_log_Some [OF s] small)
  moreover have "\<forall>j<length bands.
            planets (star_at (system_at g' systemSeed) starSeed)
              (getPlanetSeeds starSeed (ucast (planetsCount star)) ! j) = Some (fst (snd (bands ! j)))"
    using genPlanets_loop_planets [OF getPlanetSeeds_distinct run] props(1) by simp
  ultimately show ?thesis using props by blast
qed

lemma genPlanets_log_MAX_PLANETS:
  "genPlanets_log R systemSeed starSeed (g\<lparr>MAX_PLANETS := m\<rparr>) =
     map_option (\<lambda>(g', bands). (g'\<lparr>MAX_PLANETS := m\<rparr>, bands))
       (genPlanets_log R systemSeed starSeed g)"
proof (cases "stars (system_at g systemSeed) starSeed")
  case None
  then have "stars (system_at (g\<lparr>MAX_PLANETS := m\<rparr>) systemSeed) starSeed = None"
    by (simp add: system_at_def)
  then show ?thesis using None by (simp add: genPlanets_log_None)
next
  case (Some star)
  then have s': "stars (system_at (g\<lparr>MAX_PLANETS := m\<rparr>) systemSeed) starSeed = Some star"
    by (simp add: system_at_def)
  define Q where "Q = (\<lambda>(a :: 'a ProcUGalaxy) b. b = a\<lparr>MAX_PLANETS := m\<rparr>)"
  define run where "run = genPlanets_loop R systemSeed starSeed star
     (getPlanetSeeds starSeed (ucast (planetsCount star))) 0 (nat (sint (planetsCount star))) 0 0"
  have q: "Q (g\<lparr>rng := rng_seed R starSeed\<rparr>) (g\<lparr>MAX_PLANETS := m, rng := rng_seed R starSeed\<rparr>)"
    by (simp add: Q_def)
  have rel: "case run (g\<lparr>rng := rng_seed R starSeed\<rparr>) of
        None \<Rightarrow> run (g\<lparr>MAX_PLANETS := m, rng := rng_seed R starSeed\<rparr>) = None
      | Some (g', bands) \<Rightarrow>
          (\<exists>h'. run (g\<lparr>MAX_PLANETS := m, rng := rng_seed R starSeed\<rparr>) = Some (h', bands)
                \<and> Q g' h')"
    unfolding run_def
    by (rule genPlanets_loop_rel [of Q systemSeed starSeed, OF _ _ _ q])
       (simp_all add: Q_def put_planet_MAX_PLANETS)
  have "run (g\<lparr>MAX_PLANETS := m, rng := rng_seed R starSeed\<rparr>) =
          map_option (\<lambda>(g', bands). (g'\<lparr>MAX_PLANETS := m\<rparr>, bands))
            (run (g\<lparr>rng := rng_seed R starSeed\<rparr>))"
    using rel by (auto simp: Q_def split: option.splits)
  then show ?thesis
    by (simp add: genPlanets_log_Some [OF Some] genPlanets_log_Some [OF s'] run_def)
qed

lemma genPlanets_log_same_star:
  assumes "stars (system_at g1 systemSeed) starSeed = stars (system_at g2 systemSeed) starSeed"
  shows "map_option (\<lambda>(g', bands). (stars (system_at g' systemSeed) starSeed, bands))
           (genPlanets_log R systemSeed starSeed g1)
       = map_option (\<lambda>(g', bands). (stars (system_at g' systemSeed) starSeed, bands))
           (genPlanets_log R systemSeed starSeed g2)"
proof (cases "stars (system_at g1 systemSeed) starSeed")
  case None
  then show ?thesis using assms by (simp add: genPlanets_log_None)
next
  case (Some star)
  then have s2: "stars (system_at g2 systemSeed) starSeed = Some star" using assms by simp
  define Q where "Q = (\<lambda>(a :: 'a ProcUGalaxy) (b :: 'a ProcUGalaxy). rng a = rng b \<and>
     stars (system_at a systemSeed) starSeed = stars (system_at b systemSeed) starSeed)"
  define run where "run = genPlanets_loop R systemSeed starSeed star
     (getPlanetSeeds starSeed (ucast (planetsCount star))) 0 (nat (sint (planetsCount star))) 0 0"
  have q: "Q (g1\<lparr>rng := rng_seed R starSeed\<rparr>) (g2\<lparr>rng := rng_seed R starSeed\<rparr>)"
    using assms by (simp add: Q_def)
  have rel: "case run (g1\<lparr>rng := rng_seed R starSeed\<rparr>) of
        None \<Rightarrow> run (g2\<lparr>rng := rng_seed R starSeed\<rparr>) = None
      | Some (g', bands) \<Rightarrow>
          (\<exists>h'. run (g2\<lparr>rng := rng_seed R starSeed\<rparr>) = Some (h', bands) \<and> Q g' h')"
    unfolding run_def
    by (rule genPlanets_loop_rel [of Q systemSeed starSeed, OF _ _ _ q])
       (simp_all add: Q_def stars_put_planet star_at_def)
  have "map_option (\<lambda>(g', bands). (stars (system_at g' systemSeed) starSeed, bands))
           (run (g1\<lparr>rng := rng_seed R starSeed\<rparr>))
       = map_option (\<lambda>(g', bands). (stars (system_at g' systemSeed) starSeed, bands))
           (run (g2\<lparr>rng := rng_seed R starSeed\<rparr>))"
    using rel by (auto simp: Q_def split: option.splits)
  then show ?thesis
    by (simp add: genPlanets_log_Some [OF Some] genPlanets_log_Some [OF s2] run_def)
qed

lemma genPlanets_log_again:
  assumes run: "genPlanets_log R systemSeed starSeed g = Some (g', bands)"
  shows "\<exists>g''. genPlanets_log R systemSeed starSeed g' = Some (g'', bands)
           \<and> stars (system_at g'' systemSeed) starSeed = stars (system_at g' systemSeed) starSeed"
proof -
  obtain star where s: "stars (system_at g systemSeed) starSeed = Some star"
    using run genPlanets_log_None [of g systemSeed starSeed R]
    by (cases "stars (system_at g systemSeed) starSeed") auto
  define seeds where "seeds = getPlanetSeeds starSeed (ucast (planetsCount star))"
  define k where "k = nat (sint (planetsCount star))"
  have d: "distinct seeds" unfolding seeds_def by (rule getPlanetSeeds_distinct)
  have r1: "genPlanets_loop R systemSeed starSeed star seeds 0 k 0 0 (g\<lparr>rng := rng_seed R starSeed\<rparr>)
              = Some (g', bands)"
    using run by (simp add: genPlanets_log_Some [OF s] seeds_def k_def)
  have s1: "stars (system_at (g\<lparr>rng := rng_seed R starSeed\<rparr>) systemSeed) starSeed = Some star"
    using s by simp
  from genPlanets_loop_star [OF r1 s1] obtain P where
    s': "stars (system_at g' systemSeed) starSeed = Some (star\<lparr>planets := P\<rparr>)" by blast
  define Q where "Q = (\<lambda>(a :: 'a ProcUGalaxy) (b :: 'a ProcUGalaxy). rng a = rng b)"
  have q: "Q (g\<lparr>rng := rng_seed R starSeed\<rparr>) (g'\<lparr>rng := rng_seed R starSeed\<rparr>)"
    by (simp add: Q_def)
  have "case genPlanets_loop R systemSeed starSeed star seeds 0 k 0 0 (g\<lparr>rng := rng_seed R starSeed\<rparr>) of
        None \<Rightarrow> genPlanets_loop R systemSeed starSeed star seeds 0 k 0 0 (g'\<lparr>rng := rng_seed R starSeed\<rparr>) = None
      | Some (a, bs) \<Rightarrow>
          (\<exists>h'. genPlanets_loop R systemSeed starSeed star seeds 0 k 0 0 (g'\<lparr>rng := rng_seed R starSeed\<rparr>) = Some (h', bs) \<and> Q a h')"
    by (rule genPlanets_loop_rel [of Q systemSeed starSeed, OF _ _ _ q]) (simp_all add: Q_def)
  then obtain g'' where
    r2: "genPlanets_loop R systemSeed starSeed star seeds 0 k 0 0 (g'\<lparr>rng := rng_seed R starSeed\<rparr>)
           = Some (g'', bands)"
    by (auto simp: r1)
  have log2: "genPlanets_log R systemSeed starSeed g' = Some (g'', bands)"
    using r2 by (simp add: genPlanets_log_Some [OF s'] genPlanets_loop_star_planets seeds_def k_def)
  have s1': "stars (system_at (g'\<lparr>rng := rng_seed R starSeed\<rparr>) systemSeed) starSeed
               = Some (star\<lparr>planets := P\<rparr>)"
    using s' by simp
  from genPlanets_loop_star [OF r2 s1'] obtain P' where
    s'': "stars (system_at g'' systemSeed) starSeed = Some (star\<lparr>planets := P'\<rparr>)" by auto
  note p1 = genPlanets_loop_planets [OF d r1]
  note p2 = genPlanets_loop_planets [OF d r2]
  have P: "planets (star_at (system_at g' systemSeed) starSeed) = P"
    and P': "planets (star_at (system_at g'' systemSeed) starSeed) = P'"
    using s' s'' by (simp_all add: star_at_def)
  have "P' key = P key" for key
  proof (cases "key \<in> set (take k (drop 0 seeds))")
    case True
    then obtain j where j: "j < length (take k seeds)" "key = take k seeds ! j"
      by (auto simp: in_set_conv_nth)
    then have "j < k" "key = seeds ! (0 + j)" by simp_all
    then show ?thesis using p1 p2 by (simp add: P P')
  next
    case False
    then have "P' key = planets (star_at (system_at (g'\<lparr>rng := rng_seed R starSeed\<rparr>) systemSeed) starSeed) key"
      using p2 by (simp add: P')
    then show ?thesis by (simp add: P)
  qed
  then have "P' = P" by (rule ext)
  then show ?thesis using log2 s' s'' by simp
qed

subsection \<open>The small galaxy\<close>

lemma demo_galaxy_star: "stars (system_at demo_galaxy 1) 2 = Some demo_star"
  by (simp add: put_star_def system_at_def Let_def)

lemma demo_star_count: "planetsCount demo_star = 2"
  by (simp add: genStar_planetsCount replay_def)

lemma demo_multiplicity:
  "multiplicity (fst (genSystem (replay demo_book) 1 g)) = 1"
  by (simp add: genSystem_def Let_def UniverseSystem_new_def replay_def getRndCdfIdx_def
        starSystemMultiProbability_def)

lemma demo_genStars:
  "genStars (replay demo_book) 1 (snd (genSystem (replay demo_book) 1 g)) =
     Some (put_star 1 187600001
        (fst (genStar (replay demo_book) 187600001 (snd (genSystem (replay demo_book) 1 g))))
        (snd (genStar (replay demo_book) 187600001 (snd (genSystem (replay demo_book) 1 g)))))"
proof -
  have s: "systems (snd (genSystem (replay demo_book) 1 g)) 1
             = Some (fst (genSystem (replay demo_book) 1 g))"
    by (simp add: genSystem_def Let_def)
  have a: "system_at (snd (genSystem (replay demo_book) 1 g)) 1 = fst (genSystem (replay demo_book) 1 g)"
    by (simp add: system_at_def s)
  have u: "(snd (genSystem (replay demo_book) 1 g))
             \<lparr>systems := (systems (snd (genSystem (replay demo_book) 1 g)))
                (1 \<mapsto> fst (genSystem (replay demo_book) 1 g))\<rparr>
           = snd (genSystem (replay demo_book) 1 g)"
    by (simp add: genSystem_def Let_def)
  have seeds: "getStarSeeds 1 1 = [187600001]"
    by (simp add: getStarSeeds_def)
  show ?thesis
    by (simp add: genStars_def Let_def a demo_multiplicity u seeds)
qed

section \<open>The claims\<close>

subsection \<open>Determinism of the generation chain\<close>

text \<open>
  C1. Generation is a function of the seeds. \<^verbatim>\<open>genStar\<close> on a star seed returns the same
  star from any two galaxy objects, whatever their member generator, configuration and
  catalogue; \<^verbatim>\<open>genPlanet\<close> on the same planet seed, star, distance and lower limit
  returns the same planet and the same new lower limit; \<^verbatim>\<open>genPlanets\<close> on two
  galaxies that hold the same star under the same seeds leaves the same star, with the
  same planets, and goes through the same bands; and \<^verbatim>\<open>genPlanets\<close> run a second time
  on the galaxy it returned goes through the same bands again and leaves the star as it
  was. Equality of the model's values stands for bit-identical attributes.
\<close>

theorem generation_deterministic:
  "fst (genStar R starSeed g1) = fst (genStar R starSeed g2)
   \<and> map_option (\<lambda>(planet, lower', g'). (planet, lower')) (genPlanet R planetSeed star d lower g1)
     = map_option (\<lambda>(planet, lower', g'). (planet, lower')) (genPlanet R planetSeed star d lower g2)
   \<and> (stars (system_at g1 systemSeed) st = stars (system_at g2 systemSeed) st \<longrightarrow>
        map_option (\<lambda>(g', bands). (stars (system_at g' systemSeed) st, bands))
           (genPlanets_log R systemSeed st g1)
      = map_option (\<lambda>(g', bands). (stars (system_at g' systemSeed) st, bands))
           (genPlanets_log R systemSeed st g2))
   \<and> (genPlanets_log R systemSeed st g = Some (g', bands) \<longrightarrow>
        (\<exists>g''. genPlanets_log R systemSeed st g' = Some (g'', bands)
           \<and> stars (system_at g'' systemSeed) st = stars (system_at g' systemSeed) st))"
proof (intro conjI impI)
  show "fst (genStar R starSeed g1) = fst (genStar R starSeed g2)" by (rule genStar_same)
  show "map_option (\<lambda>(planet, lower', g'). (planet, lower')) (genPlanet R planetSeed star d lower g1)
     = map_option (\<lambda>(planet, lower', g'). (planet, lower')) (genPlanet R planetSeed star d lower g2)"
    by (rule genPlanet_same)
  show "map_option (\<lambda>(g', bands). (stars (system_at g' systemSeed) st, bands))
           (genPlanets_log R systemSeed st g1)
      = map_option (\<lambda>(g', bands). (stars (system_at g' systemSeed) st, bands))
           (genPlanets_log R systemSeed st g2)"
    if "stars (system_at g1 systemSeed) st = stars (system_at g2 systemSeed) st"
    using that by (rule genPlanets_log_same_star)
  show "\<exists>g''. genPlanets_log R systemSeed st g' = Some (g'', bands)
           \<and> stars (system_at g'' systemSeed) st = stars (system_at g' systemSeed) st"
    if "genPlanets_log R systemSeed st g = Some (g', bands)"
    using that by (rule genPlanets_log_again)
qed

theorem generation_deterministic_witness:
  "stars (system_at demo_galaxy 1) 2 =
     stars (system_at (put_star 1 2 demo_star
        (setGalaxySeed (replay demo_book) 99
           ((ProcUGalaxy_new (replay demo_book))\<lparr>MAX_PLANETS := 3, SECTOR_SIZE_LY := 20\<rparr>))) 1) 2
   \<and> fst (genStar (replay demo_book) 2
          (setGalaxySeed (replay demo_book) 99 (ProcUGalaxy_new (replay demo_book)))) = demo_star
   \<and> map_option (\<lambda>(g', bands). (stars (system_at g' 1) 2, bands))
           (genPlanets_log (replay demo_book) 1 2 demo_galaxy)
      = map_option (\<lambda>(g', bands). (stars (system_at g' 1) 2, bands))
           (genPlanets_log (replay demo_book) 1 2
              (put_star 1 2 demo_star
                (setGalaxySeed (replay demo_book) 99
                  ((ProcUGalaxy_new (replay demo_book))\<lparr>MAX_PLANETS := 3, SECTOR_SIZE_LY := 20\<rparr>))))
   \<and> (\<exists>g' bands g''. genPlanets_log (replay demo_book) 1 2 demo_galaxy = Some (g', bands)
         \<and> genPlanets_log (replay demo_book) 1 2 g' = Some (g'', bands)
         \<and> stars (system_at g'' 1) 2 = stars (system_at g' 1) 2)"
proof -
  let ?g2 = "put_star 1 2 demo_star
        (setGalaxySeed (replay demo_book) 99
           ((ProcUGalaxy_new (replay demo_book))\<lparr>MAX_PLANETS := 3, SECTOR_SIZE_LY := 20\<rparr>))"
  have s: "stars (system_at demo_galaxy 1) 2 = stars (system_at ?g2 1) 2"
    by (simp add: put_star_def system_at_def Let_def setGalaxySeed_def ProcUGalaxy_new_def)
  have c: "pcg32_contract (replay demo_book)" by (rule replay_contract)
  have n: "planetsCount demo_star \<le> 255" by (simp add: demo_star_count)
  obtain g' bands where
    run: "genPlanets_log (replay demo_book) 1 2 demo_galaxy = Some (g', bands)"
    using genPlanets_log_total [OF c demo_galaxy_star n] by blast
  note t = generation_deterministic [where R = "replay demo_book" and starSeed = 2
      and ?g1.0 = "setGalaxySeed (replay demo_book) 99 (ProcUGalaxy_new (replay demo_book))"
      and ?g2.0 = "ProcUGalaxy_new (replay demo_book)"]
  note t' = generation_deterministic [where R = "replay demo_book" and ?g1.0 = demo_galaxy
      and systemSeed = 1 and st = 2 and ?g2.0 = ?g2 and g = demo_galaxy and g' = g'
      and bands = bands]
  show ?thesis using s t t' run by blast
qed

subsection \<open>Sum of the composition\<close>

text \<open>
  C2. The claim: the fractions stored for a planet with an atmosphere sum to 1 within
  \<open>1e-4\<close>. The loop of \<^verbatim>\<open>createComposition\<close> adds each share to \<open>part\<close>, but when the
  gas drawn is already a key it assigns the new share in place of the old one (the
  branch marked \<^verbatim>\<open>//new\<close>) instead of adding to it. On the draws below, for a gas
  giant, argon is drawn twice: \<open>part\<close> reaches 1, the map holds 0.9872.
\<close>

theorem composition_sum_failing:
  "createAtmosphere (replay demo_book) 4 10000
     [4194304, 4194304, 8, 4194304, 3, 4194304, 6, 4194304, 6, 4194304, 5, 4194304]
   = Some (\<lparr>a_radius = 10000, a_pressure = 505,
             a_composition = [(''CO2'', 0.772), (''O2'', 0.168), (''Ar'', 0.0128), (''He'', 0.0344)]\<rparr>,
           [8, 4194304, 3, 4194304, 6, 4194304, 6, 4194304, 5, 4194304])
   \<and> exists_atm \<lparr>a_radius = 10000, a_pressure = 505,
             a_composition = [(''CO2'', 0.772), (''O2'', 0.168), (''Ar'', 0.0128), (''He'', 0.0344)]\<rparr>
   \<and> sum_list (map snd [(''CO2'', 0.772), (''O2'', 0.168), (''Ar'', 0.0128), (''He'', 0.0344 :: real)])
       = 0.9872
   \<and> \<not> \<bar>sum_list (map snd [(''CO2'', 0.772), (''O2'', 0.168), (''Ar'', 0.0128), (''He'', 0.0344 :: real)]) - 1\<bar>
         \<le> 1 / 10 ^ 4"
  by (simp add: createAtmosphere_def Let_def replay_draws composition_overwritten
        atmosphereProbabilityMax_def atmospherePressureMin_def atmospherePressureMax_def
        getPeriodicTypeColumn_def exists_atm_def)

subsection \<open>Bands of mass accretion\<close>

text \<open>
  C3. For a star in the catalogue with \<open>N\<close> planets to generate, \<^verbatim>\<open>genPlanets\<close>
  returns, and its \<open>N\<close> iterations form a chain of bands: the first band starts at
  lower limit 0; each band ends at \<open>upperLimit = 2 * distance - lowerLimit\<close>, the
  planet's mass is the mass density at its distance times the width of the band, and
  the planet lies inside its band, so no band has negative width; the next band starts
  where the band before ended. The planet of band \<open>j\<close> is the one stored under the
  planet seed of index \<open>j\<close>.
\<close>

theorem band_contiguity:
  assumes "pcg32_contract R"
    and "stars (system_at g systemSeed) starSeed = Some star"
    and "planetsCount star \<le> 255"
  shows "\<exists>g' bands. genPlanets_log R systemSeed starSeed g = Some (g', bands)
      \<and> length bands = unat (planetsCount star)
      \<and> (bands \<noteq> [] \<longrightarrow> fst (hd bands) = 0)
      \<and> (\<forall>j. Suc j < length bands \<longrightarrow> fst (bands ! Suc j) = snd (snd (bands ! j)))
      \<and> (\<forall>(lo, p, up) \<in> set bands.
            up = 2 * starDistance p - lo
          \<and> p_mass p = getStarMassDensity (s_mass star) (frostLimitAu star) (starDistance p) * (up - lo)
          \<and> lo \<le> starDistance p \<and> starDistance p \<le> up)
      \<and> (\<forall>j<length bands.
            planets (star_at (system_at g' systemSeed) starSeed)
              (getPlanetSeeds starSeed (ucast (planetsCount star)) ! j) = Some (fst (snd (bands ! j))))"
proof -
  from genPlanets_log_total [OF assms] obtain g' bands where
    "genPlanets_log R systemSeed starSeed g = Some (g', bands)"
    "length bands = unat (planetsCount star)"
    "bands \<noteq> [] \<longrightarrow> fst (hd bands) = 0"
    "\<forall>j. Suc j < length bands \<longrightarrow> fst (bands ! Suc j) = snd (snd (bands ! j))"
    "\<forall>(lo, p, up) \<in> set bands.
            up = 2 * starDistance p - lo
          \<and> p_mass p = getStarMassDensity (s_mass star) (frostLimitAu star) (starDistance p) * (up - lo)
          \<and> 0 \<le> lo \<and> lo \<le> starDistance p \<and> starDistance p \<le> up"
    "\<forall>j<length bands.
            planets (star_at (system_at g' systemSeed) starSeed)
              (getPlanetSeeds starSeed (ucast (planetsCount star)) ! j) = Some (fst (snd (bands ! j)))"
    by blast
  then show ?thesis by (intro exI [of _ g'] exI [of _ bands]) auto
qed

theorem band_contiguity_witness:
  "pcg32_contract (replay demo_book)
   \<and> stars (system_at demo_galaxy 1) 2 = Some demo_star
   \<and> planetsCount demo_star \<le> 255
   \<and> (\<exists>g' bands. genPlanets_log (replay demo_book) 1 2 demo_galaxy = Some (g', bands)
        \<and> length bands = 2
        \<and> fst (hd bands) = 0
        \<and> fst (bands ! 1) = snd (snd (bands ! 0))
        \<and> snd (snd (bands ! 0)) = 2 * starDistance (fst (snd (bands ! 0))) - fst (bands ! 0)
        \<and> planets (star_at (system_at g' 1) 2) 15435 = Some (fst (snd (bands ! 1))))"
proof -
  have c: "pcg32_contract (replay demo_book)" by (rule replay_contract)
  have n: "planetsCount demo_star \<le> 255" by (simp add: demo_star_count)
  from band_contiguity [OF c demo_galaxy_star n] obtain g' bands where
    run: "genPlanets_log (replay demo_book) 1 2 demo_galaxy = Some (g', bands)"
    and len: "length bands = unat (planetsCount demo_star)"
    and hd: "bands \<noteq> [] \<longrightarrow> fst (hd bands) = 0"
    and chain: "\<forall>j. Suc j < length bands \<longrightarrow> fst (bands ! Suc j) = snd (snd (bands ! j))"
    and each: "\<forall>(lo, p, up) \<in> set bands.
            up = 2 * starDistance p - lo
          \<and> p_mass p = getStarMassDensity (s_mass demo_star) (frostLimitAu demo_star) (starDistance p) * (up - lo)
          \<and> lo \<le> starDistance p \<and> starDistance p \<le> up"
    and stored: "\<forall>j<length bands.
            planets (star_at (system_at g' 1) 2)
              (getPlanetSeeds 2 (ucast (planetsCount demo_star)) ! j) = Some (fst (snd (bands ! j)))"
    by blast
  have len2: "length bands = 2" using len by (simp add: demo_star_count)
  then have ne: "bands \<noteq> []" by auto
  have h0: "fst (hd bands) = 0" using hd ne by simp
  have c0: "fst (bands ! 1) = snd (snd (bands ! 0))" using chain len2 by simp
  have "bands ! 0 \<in> set bands" using len2 by simp
  with each have "case bands ! 0 of (lo, p, up) \<Rightarrow> up = 2 * starDistance p - lo" by fastforce
  then have e0: "snd (snd (bands ! 0)) = 2 * starDistance (fst (snd (bands ! 0))) - fst (bands ! 0)"
    by (simp add: case_prod_beta)
  have seed1: "getPlanetSeeds 2 (ucast (planetsCount demo_star)) ! 1 = 15435"
    by (simp add: demo_star_count getPlanetSeeds_def)
  have st1: "planets (star_at (system_at g' 1) 2) 15435 = Some (fst (snd (bands ! 1)))"
    using stored len2 seed1 by (metis one_less_numeral_iff semiring_norm(76))
  show ?thesis using c demo_galaxy_star n run len2 h0 c0 e0 st1 by blast
qed

subsection \<open>Range bounds\<close>

text \<open>
  C4. The index sampled from the 24-entry cumulative table of star types lies in
  \<open>[0, 23]\<close>, and so does the type index of every generated star; the index returned
  by \<^verbatim>\<open>getPlanetTypeIndex\<close> lies in \<open>[0, 17]\<close>, and so does the type index of every
  planet \<^verbatim>\<open>genPlanet\<close> returns; \<^verbatim>\<open>habitableZoneComplete\<close> gives eight distances,
  entry 0 is 0, and for a luminosity that is not negative no entry is negative, which
  covers the array of every generated star.
\<close>

theorem range_bounds:
  assumes "pcg32_contract R"
  shows "0 \<le> getRndCdfIdx rn starTypeProbability \<and> getRndCdfIdx rn starTypeProbability \<le> 23
   \<and> s_typeIndex (fst (genStar R starSeed g)) \<le> 23
   \<and> 0 \<le> getPlanetTypeIndex planet hzMinAu hzMaxAu
   \<and> getPlanetTypeIndex planet hzMinAu hzMaxAu \<le> 17
   \<and> (case genPlanet R planetSeed star d lower g of
         None \<Rightarrow> False
       | Some (p, l, g') \<Rightarrow> 0 \<le> p_typeIndex p \<and> p_typeIndex p \<le> 17)
   \<and> length (habitableZoneComplete tEff lumStar) = 8
   \<and> habitableZoneComplete tEff lumStar ! 0 = 0
   \<and> (0 \<le> lumStar \<longrightarrow> (\<forall>i<8. 0 \<le> habitableZoneComplete tEff lumStar ! i))
   \<and> (\<forall>i<8. 0 \<le> hzDistAu (fst (genStar R starSeed g)) ! i)
   \<and> hzDistAu (fst (genStar R starSeed g)) ! 0 = 0"
proof -
  have p: "case genPlanet R planetSeed star d lower g of
         None \<Rightarrow> False
       | Some (p, l, g') \<Rightarrow> 0 \<le> p_typeIndex p \<and> p_typeIndex p \<le> 17"
  proof (cases "genPlanet R planetSeed star d lower g")
    case None
    then show ?thesis using genPlanet_total [OF assms] by simp
  next
    case (Some res)
    obtain p l g' where "res = (p, l, g')" by (cases res)
    with Some genPlanet_Some(5) [of R planetSeed star d lower g p l g'] show ?thesis by simp
  qed
  have "0 \<le> s_mass (fst (genStar R starSeed g))"
    using genStar_mass_pos [OF assms, of starSeed g] by simp
  then have l: "0 \<le> luminosity (fst (genStar R starSeed g))"
    by (simp only: genStar_fields(3) calcLuminosity_nonneg)
  have h: "\<forall>i<8. 0 \<le> hzDistAu (fst (genStar R starSeed g)) ! i"
    using habitableZoneComplete_nonneg [OF l] by (simp only: genStar_fields(2)) simp
  show ?thesis
    using starTypeIndex_range genStar_typeIndex_le getPlanetTypeIndex_range p
      habitableZoneComplete_length habitableZoneComplete_0 habitableZoneComplete_nonneg h
    by (simp add: genStar_fields(2))
qed

theorem range_bounds_witness:
  "pcg32_contract (replay demo_book)
   \<and> s_typeIndex demo_star \<le> 23
   \<and> getPlanetTypeIndex UniversePlanet_new 1 2 \<le> 17
   \<and> (0::real) \<le> 1
   \<and> 0 \<le> habitableZoneComplete 5780 1 ! 1
   \<and> 0 \<le> hzDistAu demo_star ! 5
   \<and> hzDistAu demo_star ! 0 = 0"
proof -
  have c: "pcg32_contract (replay demo_book)" by (rule replay_contract)
  note t = range_bounds [OF c, where starSeed = 2 and g = "ProcUGalaxy_new (replay demo_book)"
      and planet = UniversePlanet_new and hzMinAu = 1 and hzMaxAu = 2 and lumStar = 1
      and tEff = 5780]
  have "(0::real) \<le> 1" by simp
  moreover have "(1::nat) < 8" "(5::nat) < 8" by simp_all
  ultimately show ?thesis using c t by blast
qed

subsection \<open>Systems are generated anew on every request\<close>

text \<open>
  C5. The claim: a second \<^verbatim>\<open>genSystem\<close> with the same seed returns an equal result and
  is a cache hit that does not sample again. The first half holds: the result is a
  function of the seed and of \<^verbatim>\<open>SECTOR_SIZE_LY\<close>. The second half does not:
  \<^verbatim>\<open>genSystem\<close> never looks into the catalogue, every call seeds a fresh generator,
  draws position and multiplicity again, and stores the new system, without stars,
  over the entry of that seed; the member generator stays as it was.
\<close>

theorem genSystem_regenerates:
  "(SECTOR_SIZE_LY g1 = SECTOR_SIZE_LY g2 \<longrightarrow>
       fst (genSystem R systemSeed g1) = fst (genSystem R systemSeed g2))
   \<and> fst (genSystem R systemSeed (snd (genSystem R systemSeed g))) = fst (genSystem R systemSeed g)
   \<and> systems (snd (genSystem R systemSeed g)) systemSeed = Some (fst (genSystem R systemSeed g))
   \<and> stars (fst (genSystem R systemSeed g)) = Map.empty
   \<and> multiplicity (fst (genSystem R systemSeed g)) =
        getRndCdfIdx (fst (nextFloat R (snd (nextDouble R (snd (nextDouble R
          (snd (nextDouble R (rng_seed R systemSeed))))))))) starSystemMultiProbability + 1
   \<and> rng (snd (genSystem R systemSeed g)) = rng g"
  by (simp add: genSystem_def Let_def UniverseSystem_new_def)

theorem genSystem_regenerates_witness:
  "SECTOR_SIZE_LY (ProcUGalaxy_new (replay demo_book)) = SECTOR_SIZE_LY demo_galaxy
   \<and> fst (genSystem (replay demo_book) 1 (ProcUGalaxy_new (replay demo_book)))
       = fst (genSystem (replay demo_book) 1 demo_galaxy)
   \<and> stars (fst (genSystem (replay demo_book) 1 demo_galaxy)) = Map.empty"
proof -
  have s: "SECTOR_SIZE_LY (ProcUGalaxy_new (replay demo_book)) = SECTOR_SIZE_LY demo_galaxy"
    by (simp add: put_star_def Let_def)
  note t = genSystem_regenerates [where R = "replay demo_book" and systemSeed = 1
      and ?g1.0 = "ProcUGalaxy_new (replay demo_book)" and ?g2.0 = demo_galaxy and g = demo_galaxy]
  show ?thesis using s t by blast
qed

text \<open>
  Were the second call a cache hit, it would return the stored system and leave the
  galaxy as it is. After \<^verbatim>\<open>genSystem\<close> and \<^verbatim>\<open>genStars\<close> for seed 1 the catalogue holds
  the system with its star; the next \<^verbatim>\<open>genSystem\<close> for seed 1 returns a system without
  stars instead.
\<close>

theorem genSystem_cache_counterexample:
  "systems (the (genStars (replay demo_book) 1
              (snd (genSystem (replay demo_book) 1 (ProcUGalaxy_new (replay demo_book)))))) 1 \<noteq> None
   \<and> genSystem (replay demo_book) 1
        (the (genStars (replay demo_book) 1
              (snd (genSystem (replay demo_book) 1 (ProcUGalaxy_new (replay demo_book))))))
     \<noteq> (the (systems (the (genStars (replay demo_book) 1
              (snd (genSystem (replay demo_book) 1 (ProcUGalaxy_new (replay demo_book)))))) 1),
         the (genStars (replay demo_book) 1
              (snd (genSystem (replay demo_book) 1 (ProcUGalaxy_new (replay demo_book))))))"
proof -
  let ?g0 = "ProcUGalaxy_new (replay demo_book)"
  let ?g1 = "snd (genSystem (replay demo_book) 1 ?g0)"
  let ?star = "fst (genStar (replay demo_book) 187600001 ?g1)"
  let ?g2 = "put_star 1 187600001 ?star (snd (genStar (replay demo_book) 187600001 ?g1))"
  have g2: "the (genStars (replay demo_book) 1 ?g1) = ?g2" by (simp add: demo_genStars)
  have stored: "stars (system_at ?g2 1) 187600001 = Some ?star"
    by (simp add: put_star_def Let_def system_at_def)
  have ex: "systems ?g2 1 \<noteq> None" by (simp add: put_star_def Let_def)
  then have sa: "system_at ?g2 1 = the (systems ?g2 1)" by (auto simp: system_at_def)
  have fresh: "stars (fst (genSystem (replay demo_book) 1 ?g2)) 187600001 = None"
    by (simp add: genSystem_def Let_def UniverseSystem_new_def)
  have "fst (genSystem (replay demo_book) 1 ?g2) \<noteq> the (systems ?g2 1)"
    using stored fresh sa by auto
  then have "genSystem (replay demo_book) 1 ?g2 \<noteq> (the (systems ?g2 1), ?g2)"
    by (metis fst_conv)
  then show ?thesis using ex by (simp only: g2) simp
qed

subsection \<open>Placement of the next planet\<close>

text \<open>
  C6. The claim: inside the frost limit the distance is drawn between the lower bound
  and the frost limit, so it never exceeds the frost limit; outside, the previous
  distance is multiplied by a factor of at least 1.5. The code adds a fixed 0.1 to the
  draw: inside the frost limit the distance is
  \<open>lower + 0.1 + u * (frost - lower)\<close> with \<open>u\<close> in \<open>[0, 1)\<close>, which lies in
  \<open>[lower + 0.1, frost + 0.1)\<close>. Outside, the factor is \<open>1.5 + u\<close>, in
  \<open>[1.5, 2.5)\<close>, and the lower bound is added when the product does not exceed it.
\<close>

theorem planet_placement:
  assumes "pcg32_contract R"
  shows "(lower < frostLimitAu star \<longrightarrow>
            fst (planetDistance R star lower d g)
              = lower + 0.1 + fst (nextFloat R (rng g)) * (frostLimitAu star - lower)
          \<and> lower + 0.1 \<le> fst (planetDistance R star lower d g)
          \<and> fst (planetDistance R star lower d g) < frostLimitAu star + 0.1)
       \<and> (\<not> lower < frostLimitAu star \<longrightarrow>
            1.5 \<le> 1.5 + fst (nextFloat R (rng g))
          \<and> 1.5 + fst (nextFloat R (rng g)) < 2.5
          \<and> fst (planetDistance R star lower d g)
              = (if d * (1.5 + fst (nextFloat R (rng g))) \<le> lower
                 then d * (1.5 + fst (nextFloat R (rng g))) + lower
                 else d * (1.5 + fst (nextFloat R (rng g)))))"
proof -
  define u where "u = fst (nextFloat R (rng g))"
  have u: "0 \<le> u \<and> u < 1" using assms by (simp add: u_def pcg32_contract_def)
  have inner: "lower + 0.1 \<le> lower + 0.1 + u * (frostLimitAu star - lower)
             \<and> lower + 0.1 + u * (frostLimitAu star - lower) < frostLimitAu star + 0.1"
    if lt: "lower < frostLimitAu star"
  proof -
    have w: "0 < frostLimitAu star - lower" using lt by simp
    have "0 \<le> u * (frostLimitAu star - lower)" using u w by simp
    moreover have "u * (frostLimitAu star - lower) < 1 * (frostLimitAu star - lower)"
      using u w by (intro mult_strict_right_mono) auto
    ultimately show ?thesis by simp
  qed
  show ?thesis
    using u inner by (simp add: planetDistance_def Let_def u_def [symmetric])
qed

theorem planet_placement_witness:
  "pcg32_contract (replay demo_book)
   \<and> (0::real) < 1
   \<and> fst (planetDistance (replay demo_book) (UniverseStar_new\<lparr>frostLimitAu := 1\<rparr>) 0 0
           ((ProcUGalaxy_new (replay demo_book))\<lparr>rng := [4194304]\<rparr>)) = 0.6
   \<and> \<not> (2::real) < 1
   \<and> fst (planetDistance (replay demo_book) (UniverseStar_new\<lparr>frostLimitAu := 1\<rparr>) 2 1
           ((ProcUGalaxy_new (replay demo_book))\<lparr>rng := [4194304]\<rparr>)) = 4"
proof -
  have c: "pcg32_contract (replay demo_book)" by (rule replay_contract)
  note t1 = planet_placement [OF c, where lower = 0 and d = 0
      and star = "UniverseStar_new\<lparr>frostLimitAu := 1\<rparr>"
      and g = "(ProcUGalaxy_new (replay demo_book))\<lparr>rng := [4194304]\<rparr>"]
  note t2 = planet_placement [OF c, where lower = 2 and d = 1
      and star = "UniverseStar_new\<lparr>frostLimitAu := 1\<rparr>"
      and g = "(ProcUGalaxy_new (replay demo_book))\<lparr>rng := [4194304]\<rparr>"]
  have f: "fst (nextFloat (replay demo_book) [4194304]) = 0.5" by (simp add: replay_def)
  show ?thesis using c t1 t2 by (simp add: f)
qed

text \<open>
  With frost limit 1, lower bound 0 and the draw 0.9375 the distance is 1.0375, beyond
  the frost limit.
\<close>

theorem planet_placement_counterexample:
  "(0::real) < frostLimitAu (UniverseStar_new\<lparr>frostLimitAu := 1\<rparr>)
   \<and> frostLimitAu (UniverseStar_new\<lparr>frostLimitAu := 1\<rparr>)
       < fst (planetDistance (replay demo_book) (UniverseStar_new\<lparr>frostLimitAu := 1\<rparr>) 0 0
               ((ProcUGalaxy_new (replay demo_book))\<lparr>rng := [7864320]\<rparr>))"
  by (simp add: planetDistance_def Let_def replay_def)

subsection \<open>Habitability of an atmosphere\<close>

text \<open>
  C7. The claim: \<^verbatim>\<open>atmosphereHabitability\<close> returns 0 when a gas exceeds its maximum
  partial pressure, 0 when the oxygen partial pressure is below 0.16 bar, 0 when the
  composition holds no oxygen, the empty composition included, and 1 otherwise. The
  test for missing oxygen stands inside the loop over the entries, so on the empty
  composition no test runs at all and the function returns the initial 1.0.
\<close>

theorem atmosphereHabitability_empty:
  "atmosphereHabitability [] pressure = 1"
  by (simp add: atmosphereHabitability_def)

subsection \<open>Atmospheres by planet class\<close>

text \<open>
  C8. The claim: a gas giant (column 4 or 5) always gets an atmosphere of the planet's
  radius, and a mercurial planet (column 0) gets none, for every draw.
  \<^verbatim>\<open>createAtmosphere\<close> returns the empty atmosphere when the draw exceeds the type's
  maximum probability. For a gas giant the maximum is 1 and no draw exceeds it. For a
  mercurial planet the maximum is 0: every draw greater than 0 gives the empty
  atmosphere, and the draw 0 itself does not exceed 0.
\<close>

theorem atmosphere_by_class:
  assumes "pcg32_contract R" and "0 \<le> typeIndex" and "typeIndex < 18"
  shows "(4 \<le> getPeriodicTypeColumn typeIndex \<longrightarrow>
            (\<exists>atm r. createAtmosphere R typeIndex planetRadius rnd = Some (atm, r)
               \<and> a_radius atm = planetRadius))
       \<and> (getPeriodicTypeColumn typeIndex = 0 \<and> 0 < fst (nextFloat R rnd) \<longrightarrow>
            (\<exists>atm r. createAtmosphere R typeIndex planetRadius rnd = Some (atm, r)
               \<and> a_radius atm = 0 \<and> \<not> exists_atm atm))"
proof -
  obtain atm r where a: "createAtmosphere R typeIndex planetRadius rnd = Some (atm, r)"
    using createAtmosphere_total [OF assms] by blast
  note rad = createAtmosphere_radius [OF a]
  have f: "fst (nextFloat R rnd) < 1" using assms(1) by (simp add: pcg32_contract_def)
  have giant: "a_radius atm = planetRadius" if "4 \<le> getPeriodicTypeColumn typeIndex"
    using rad that f atmosphereProbabilityMax_column(1) [OF assms(2,3) that] by simp
  have merc: "a_radius atm = 0"
    if "getPeriodicTypeColumn typeIndex = 0" "0 < fst (nextFloat R rnd)"
    using rad that atmosphereProbabilityMax_column(2) [OF assms(2,3) that(1)] by simp
  show ?thesis using a giant merc by (auto simp: exists_atm_def)
qed

theorem atmosphere_by_class_witness:
  "pcg32_contract (replay demo_book)
   \<and> (4::int) \<le> getPeriodicTypeColumn 10
   \<and> (\<exists>atm r. createAtmosphere (replay demo_book) 10 70000 [5, 6] = Some (atm, r)
               \<and> a_radius atm = 70000)
   \<and> getPeriodicTypeColumn 6 = 0
   \<and> 0 < fst (nextFloat (replay demo_book) [5, 6])
   \<and> (\<exists>atm r. createAtmosphere (replay demo_book) 6 2000 [5, 6] = Some (atm, r)
               \<and> a_radius atm = 0 \<and> \<not> exists_atm atm)"
proof -
  have c: "pcg32_contract (replay demo_book)" by (rule replay_contract)
  note t1 = atmosphere_by_class [OF c, where typeIndex = 10 and planetRadius = 70000
      and rnd = "[5, 6]"]
  note t2 = atmosphere_by_class [OF c, where typeIndex = 6 and planetRadius = 2000
      and rnd = "[5, 6]"]
  have g: "(4::int) \<le> getPeriodicTypeColumn 10" "getPeriodicTypeColumn 6 = 0"
    by (simp_all add: getPeriodicTypeColumn_def)
  have f: "0 < fst (nextFloat (replay demo_book) [5, 6])" by (simp add: replay_def)
  show ?thesis using c t1 t2 g f by simp
qed

text \<open>
  A hot mercurial planet of radius 1000 whose first draw is 0 and whose second is 0.5
  gets an atmosphere of radius 1055.
\<close>

theorem atmosphere_by_class_counterexample:
  "getPeriodicTypeColumn 0 = 0
   \<and> map_option (\<lambda>res. a_radius (fst res))
         (createAtmosphere (replay demo_book) 0 1000 [0, 4194304, 4194304, 8, 4194304, 2, 4194304])
       = Some 1055"
proof -
  have c: "pcg32_contract (replay demo_book)" by (rule replay_contract)
  obtain atm r where
    a: "createAtmosphere (replay demo_book) 0 1000 [0, 4194304, 4194304, 8, 4194304, 2, 4194304]
          = Some (atm, r)"
    using createAtmosphere_total
      [OF c, of 0 1000 "[0, 4194304, 4194304, 8, 4194304, 2, 4194304]"] by auto
  have "a_radius atm = 1055"
    using createAtmosphere_radius [OF a]
    by (simp add: replay_def atmosphereProbabilityMax_def getPeriodicTypeColumn_def)
  then show ?thesis using a by (simp add: getPeriodicTypeColumn_def)
qed

subsection \<open>The pressure of the atmosphere does not reach the habitability score\<close>

text \<open>
  C9. \<^verbatim>\<open>getPlanetHabitability\<close> calls \<^verbatim>\<open>atmosphereHabitability\<close> with the composition
  alone, so with the default pressure 1.0: two planets that differ in nothing but the
  pressure stored in their atmosphere get the same score, and the planets written back
  differ in that pressure only.
\<close>

theorem getPlanetHabitability_pressure_independent:
  "fst (getPlanetHabitability (planet\<lparr>atmosphere := (atmosphere planet)\<lparr>a_pressure := x\<rparr>\<rparr>))
     = fst (getPlanetHabitability planet)
   \<and> fst (getPlanetHabitability
            (planet\<lparr>atmosphere := \<lparr>a_radius = r, a_pressure = x, a_composition = c\<rparr>\<rparr>))
     = fst (getPlanetHabitability
            (planet\<lparr>atmosphere := \<lparr>a_radius = r, a_pressure = y, a_composition = c\<rparr>\<rparr>))
   \<and> snd (getPlanetHabitability (planet\<lparr>atmosphere := (atmosphere planet)\<lparr>a_pressure := x\<rparr>\<rparr>))
     = (snd (getPlanetHabitability planet))
         \<lparr>atmosphere := (atmosphere planet)\<lparr>a_pressure := x\<rparr>\<rparr>"
  by (simp add: getPlanetHabitability_unfold calcPlanetHabitability_atmosphere exists_atm_def)

subsection \<open>The number of planets\<close>

text \<open>
  C10. \<^verbatim>\<open>genStar\<close> draws the planet count with \<^verbatim>\<open>nextUInt(8)\<close>, so it is at most 7;
  neither \<^verbatim>\<open>genStar\<close> nor \<^verbatim>\<open>genPlanets\<close> reads \<^verbatim>\<open>MAX_PLANETS\<close>: with another value
  of it they return the same star, the same planets and the same galaxy but for that
  value; and a star generated with at most 7 planets hosts at most 7 once
  \<^verbatim>\<open>genPlanets\<close> has run.
\<close>

theorem planet_count_cap:
  assumes "pcg32_contract R"
  shows "planetsCount (fst (genStar R starSeed g)) \<le> 7
    \<and> genStar R starSeed (g\<lparr>MAX_PLANETS := m\<rparr>) =
        (fst (genStar R starSeed g), (snd (genStar R starSeed g))\<lparr>MAX_PLANETS := m\<rparr>)
    \<and> genPlanets_log R systemSeed st (g\<lparr>MAX_PLANETS := m\<rparr>) =
        map_option (\<lambda>(g', bands). (g'\<lparr>MAX_PLANETS := m\<rparr>, bands))
          (genPlanets_log R systemSeed st g)
    \<and> (stars (system_at g systemSeed) st = Some star \<and> planetsCount star \<le> 7
          \<and> planets star = Map.empty \<longrightarrow>
        (\<exists>g' bands. genPlanets_log R systemSeed st g = Some (g', bands)
           \<and> length bands = unat (planetsCount star)
           \<and> length bands \<le> 7
           \<and> card (dom (planets (star_at (system_at g' systemSeed) st))) \<le> 7))"
proof -
  have hosts: "\<exists>g' bands. genPlanets_log R systemSeed st g = Some (g', bands)
           \<and> length bands = unat (planetsCount star)
           \<and> length bands \<le> 7
           \<and> card (dom (planets (star_at (system_at g' systemSeed) st))) \<le> 7"
    if s: "stars (system_at g systemSeed) st = Some star"
      and n: "planetsCount star \<le> 7" and e: "planets star = Map.empty"
  proof -
    have n255: "planetsCount star \<le> 255" using n by (rule order_trans) simp
    have u7: "unat (planetsCount star) \<le> 7"
      using n by (simp add: word_le_nat_alt)
    from genPlanets_log_total [OF assms s n255] obtain g' bands where
      run: "genPlanets_log R systemSeed st g = Some (g', bands)"
      and len: "length bands = unat (planetsCount star)"
      and dom: "dom (planets (star_at (system_at g' systemSeed) st)) =
          dom (planets star) \<union> set (getPlanetSeeds st (ucast (planetsCount star)))"
      by blast
    have "card (set (getPlanetSeeds st (ucast (planetsCount star))))
            \<le> length (getPlanetSeeds st (ucast (planetsCount star)))"
      by (rule card_length)
    then have "card (dom (planets (star_at (system_at g' systemSeed) st))) \<le> 7"
      using u7 by (simp add: dom e planet_count_small [OF n255])
    then show ?thesis using run len u7 by auto
  qed
  show ?thesis
    using genStar_planetsCount_le [OF assms] genStar_MAX_PLANETS genPlanets_log_MAX_PLANETS hosts
    by blast
qed

theorem planet_count_cap_witness:
  "pcg32_contract (replay demo_book)
   \<and> planetsCount demo_star \<le> 7
   \<and> fst (genStar (replay demo_book) 2 ((ProcUGalaxy_new (replay demo_book))\<lparr>MAX_PLANETS := 1\<rparr>))
       = demo_star
   \<and> stars (system_at demo_galaxy 1) 2 = Some demo_star
   \<and> planets demo_star = Map.empty
   \<and> (\<exists>g' bands. genPlanets_log (replay demo_book) 1 2 demo_galaxy = Some (g', bands)
         \<and> length bands = 2
         \<and> card (dom (planets (star_at (system_at g' 1) 2))) \<le> 7)"
proof -
  have c: "pcg32_contract (replay demo_book)" by (rule replay_contract)
  note t = planet_count_cap [OF c, of 2 "ProcUGalaxy_new (replay demo_book)" 1 1 2 demo_star]
  note t' = planet_count_cap [OF c, of 2 demo_galaxy 1 1 2 demo_star]
  have n: "planetsCount demo_star \<le> 7" using t by blast
  have e: "planets demo_star = Map.empty" by (simp add: genStar_fields)
  have m: "fst (genStar (replay demo_book) 2 ((ProcUGalaxy_new (replay demo_book))\<lparr>MAX_PLANETS := 1\<rparr>))
       = demo_star" using t by simp
  from t' demo_galaxy_star n e obtain g' bands where
    "genPlanets_log (replay demo_book) 1 2 demo_galaxy = Some (g', bands)"
    "length bands = unat (planetsCount demo_star)"
    "card (dom (planets (star_at (system_at g' 1) 2))) \<le> 7"
    by blast
  then show ?thesis using c n m e demo_galaxy_star by (auto simp: demo_star_count)
qed

end
